theory Spec2Isabelle
  imports Main "HOL-Library.Word"
begin

section \<open>Inline assembly, GCC dialect: decomposition of the asm string\<close>

text \<open>
  \<^verbatim>\<open>GCCAsmStmt::AnalyzeAsmString\<close> (lib/AST/Stmt.cpp) scans the asm string with a
  cursor \<^verbatim>\<open>CurPtr\<close>. The model keeps the characters from the cursor to the end of the
  string together with the cursor's offset \<^verbatim>\<open>CurPtr - StrStart\<close>. The function writes
  through two references, \<^verbatim>\<open>Pieces\<close> and \<^verbatim>\<open>DiagOffs\<close>, and returns an \<^verbatim>\<open>unsigned\<close>:
  0, or the identifier of a diagnostic. All three are the result of the model.

  Offsets into the string and operand counts are natural numbers: the length of a
  string literal and the operand counts of a statement are \<^verbatim>\<open>unsigned\<close> fields of
  the node, and no sum of them wraps for a statement that fits in memory. The number
  read from a run of digits is text of the user and does wrap: it is a 32-bit word.
\<close>

datatype diag =
    err_asm_invalid_escape
  | err_asm_invalid_operand_number
  | err_asm_unterminated_symbolic_operand_name
  | err_asm_empty_symbolic_operand_name
  | err_asm_unknown_symbolic_operand_name

text \<open>
  \<^verbatim>\<open>AsmStringPiece\<close>: a literal string, or an operand number with its modifier
  character (the character 0 when there is none).
\<close>

datatype AsmStringPiece =
    StringPiece string
  | OperandPiece nat char

record GCCAsmStmt =
  IsSimple :: bool
  NumOutputs :: nat
  NumInputs :: nat
  Names :: "string option list"
  Constraints :: "string list"
  AsmStr :: string

text \<open>
  The arrays \<^verbatim>\<open>Names\<close> and \<^verbatim>\<open>Constraints\<close> hold the outputs first, then the inputs
  (the constructor copies \<^verbatim>\<open>NumOutputs + NumInputs\<close> entries of each). A null
  \<^verbatim>\<open>IdentifierInfo\<close> pointer is \<open>None\<close>.
\<close>

text \<open>
  Modelled from the spec: the accessors \<^verbatim>\<open>getOutputName\<close>, \<^verbatim>\<open>getInputName\<close> and
  \<^verbatim>\<open>isOutputPlusConstraint\<close> are declared in Stmt.h, which is not part of the
  sources at hand. An operand without a name has the empty name; an output is
  "+"-constrained when its constraint string starts with \<^verbatim>\<open>+\<close>.
\<close>

definition getOutputName :: "GCCAsmStmt \<Rightarrow> nat \<Rightarrow> string" where
  "getOutputName S i = (case Names S ! i of None \<Rightarrow> [] | Some n \<Rightarrow> n)"

definition getInputName :: "GCCAsmStmt \<Rightarrow> nat \<Rightarrow> string" where
  "getInputName S i = (case Names S ! (i + NumOutputs S) of None \<Rightarrow> [] | Some n \<Rightarrow> n)"

definition isOutputPlusConstraint :: "GCCAsmStmt \<Rightarrow> nat \<Rightarrow> bool" where
  "isOutputPlusConstraint S i =
     (case Constraints S ! i of [] \<Rightarrow> False | c # _ \<Rightarrow> c = CHR ''+'')"

text \<open>\<^verbatim>\<open>AsmStmt::getNumPlusOperands\<close>: the counted loop over the outputs.\<close>

definition getNumPlusOperands :: "GCCAsmStmt \<Rightarrow> nat" where
  "getNumPlusOperands S =
     fold (\<lambda>i Res. if isOutputPlusConstraint S i then Res + 1 else Res)
       [0 ..< NumOutputs S] 0"

text \<open>
  \<^verbatim>\<open>GCCAsmStmt::getNamedOperand\<close>: the two loops, each returning at its first hit,
  and \<open>- 1\<close> when neither finds the name. \<^verbatim>\<open>NumPlusOperands\<close> is the local variable
  of the source, which stays 0.
\<close>

fun findOutputName :: "GCCAsmStmt \<Rightarrow> string \<Rightarrow> nat \<Rightarrow> nat \<Rightarrow> nat option" where
  "findOutputName S SymbolicName i 0 = None"
| "findOutputName S SymbolicName i (Suc k) =
     (if getOutputName S i = SymbolicName then Some i
      else findOutputName S SymbolicName (Suc i) k)"

fun findInputName :: "GCCAsmStmt \<Rightarrow> string \<Rightarrow> nat \<Rightarrow> nat \<Rightarrow> nat option" where
  "findInputName S SymbolicName i 0 = None"
| "findInputName S SymbolicName i (Suc k) =
     (if getInputName S i = SymbolicName then Some i
      else findInputName S SymbolicName (Suc i) k)"

definition getNamedOperand :: "GCCAsmStmt \<Rightarrow> string \<Rightarrow> int" where
  "getNamedOperand S SymbolicName =
     (let NumPlusOperands = 0 in
      case findOutputName S SymbolicName 0 (NumOutputs S) of
        Some i \<Rightarrow> int i
      | None \<Rightarrow>
          (case findInputName S SymbolicName 0 (NumInputs S) of
             Some i \<Rightarrow> int (NumOutputs S + NumPlusOperands + i)
           | None \<Rightarrow> - 1))"

text \<open>
  \<^verbatim>\<open>isDigit\<close> and \<^verbatim>\<open>isLetter\<close> of clang/Basic/CharInfo.h: the ASCII digits and the
  ASCII letters.
\<close>

definition isDigit :: "char \<Rightarrow> bool" where
  "isDigit c = (48 \<le> (of_char c :: nat) \<and> (of_char c :: nat) \<le> 57)"

definition isLetter :: "char \<Rightarrow> bool" where
  "isLetter c =
     ((65 \<le> (of_char c :: nat) \<and> (of_char c :: nat) \<le> 90) \<or>
      (97 \<le> (of_char c :: nat) \<and> (of_char c :: nat) \<le> 122))"

text \<open>
  The inner loop \<^verbatim>\<open>while (CurPtr != StrEnd && isDigit(*CurPtr)) N = N*10 + ((*CurPtr++)-'0')\<close>
  on an \<^verbatim>\<open>unsigned\<close> \<open>N\<close>: it returns \<open>N\<close> and what is left of the string.
\<close>

fun digit_run :: "32 word \<Rightarrow> string \<Rightarrow> 32 word \<times> string" where
  "digit_run N [] = (N, [])"
| "digit_run N (c # cs) =
     (if isDigit c then digit_run (N * 10 + (of_nat (of_char c) - 48)) cs
      else (N, c # cs))"

text \<open>
  The state the function leaves behind: the returned code (\<open>None\<close> is 0), the pieces
  and the diagnostic offset.
\<close>

record analysis =
  ret :: "diag option"
  Pieces :: "AsmStringPiece list"
  DiagOffs :: nat

text \<open>
  One operand reference, from the point where \<^verbatim>\<open>EscapedChar\<close> holds the character
  after the optional modifier and the cursor (offset \<open>pos\<close>) stands behind it: either
  the function returns a diagnostic, or it pushes a piece and goes round the loop
  again with a new cursor.
\<close>

datatype operand_step =
    Return diag nat
  | Continue AsmStringPiece string nat nat

definition NumOperands :: "GCCAsmStmt \<Rightarrow> nat" where
  "NumOperands S = NumOutputs S + getNumPlusOperands S + NumInputs S"

definition operand_ref ::
  "GCCAsmStmt \<Rightarrow> char \<Rightarrow> char \<Rightarrow> string \<Rightarrow> nat \<Rightarrow> nat \<Rightarrow> operand_step" where
  "operand_ref S Modifier EscapedChar rest pos D =
     (if isDigit EscapedChar then
        (case digit_run 0 (EscapedChar # rest) of
           (N, rest') \<Rightarrow>
             (let CurPtr = pos - 1 + (length (EscapedChar # rest) - length rest') in
              if unat N \<ge> NumOperands S
              then Return err_asm_invalid_operand_number (CurPtr - 1)
              else Continue (OperandPiece (unat N) Modifier) rest' CurPtr D))
      else if EscapedChar = CHR ''['' then
        (let D' = pos - 1 in
         if CHR '']'' \<notin> set rest
         then Return err_asm_unterminated_symbolic_operand_name D'
         else if takeWhile (\<lambda>c. c \<noteq> CHR '']'') rest = []
         then Return err_asm_empty_symbolic_operand_name D'
         else
           (let SymbolicName = takeWhile (\<lambda>c. c \<noteq> CHR '']'') rest;
                N = getNamedOperand S SymbolicName
            in if N = - 1
               then Return err_asm_unknown_symbolic_operand_name pos
               else Continue (OperandPiece (nat N) Modifier)
                      (tl (dropWhile (\<lambda>c. c \<noteq> CHR '']'') rest))
                      (pos + length SymbolicName + 1) D'))
      else Return err_asm_invalid_escape (pos - 1))"

text \<open>
  Pushing the accumulated literal, if there is one
  (\<^verbatim>\<open>if (!CurStringPiece.empty()) Pieces.push_back(...)\<close>).
\<close>

definition flush :: "string \<Rightarrow> AsmStringPiece list \<Rightarrow> AsmStringPiece list" where
  "flush CurStringPiece Ps =
     (if CurStringPiece \<noteq> [] then Ps @ [StringPiece CurStringPiece] else Ps)"

lemma digit_run_length: "digit_run N s = (M, r) \<Longrightarrow> length r \<le> length s"
  by (induction s arbitrary: N) (auto split: if_splits intro: le_SucI)

lemma operand_ref_length:
  "operand_ref S m e rest pos D = Continue p rest' pos' D' \<Longrightarrow> length rest' \<le> length rest"
proof -
  assume a: "operand_ref S m e rest pos D = Continue p rest' pos' D'"
  show ?thesis
  proof (cases "isDigit e")
    case True
    obtain N r where dr: "digit_run 0 (e # rest) = (N, r)"
      by (cases "digit_run 0 (e # rest)")
    from True have dr': "digit_run (0 * 10 + (of_nat (of_char e) - 48)) rest = (N, r)"
      using dr by simp
    from a True dr have "rest' = r"
      by (simp add: operand_ref_def Let_def split: if_splits)
    with digit_run_length [OF dr'] show ?thesis by simp
  next
    case False
    with a have "rest' = tl (dropWhile (\<lambda>c. c \<noteq> CHR '']'') rest)"
      by (simp add: operand_ref_def Let_def split: if_splits)
    moreover have "length (dropWhile (\<lambda>c. c \<noteq> CHR '']'') rest) \<le> length rest"
      by (rule length_dropWhile_le)
    ultimately show ?thesis by simp
  qed
qed

text \<open>
  The main loop \<^verbatim>\<open>while (1)\<close> of the non-simple case. \<open>s\<close> is the string from the
  cursor on, \<open>pos\<close> the offset of the cursor.
\<close>

function scan ::
  "GCCAsmStmt \<Rightarrow> bool \<Rightarrow> string \<Rightarrow> nat \<Rightarrow> string \<Rightarrow> AsmStringPiece list \<Rightarrow> nat \<Rightarrow> analysis"
where
  "scan S HasVariants [] pos CurStringPiece Ps D =
     \<lparr>ret = None, Pieces = flush CurStringPiece Ps, DiagOffs = D\<rparr>"
| "scan S HasVariants (CurChar # s) pos CurStringPiece Ps D =
     (if CurChar = CHR ''$'' then
        scan S HasVariants s (pos + 1) (CurStringPiece @ ''$$'') Ps D
      else if CurChar = CHR ''{'' then
        scan S HasVariants s (pos + 1)
          (CurStringPiece @ (if HasVariants then ''$('' else ''{'')) Ps D
      else if CurChar = CHR ''|'' then
        scan S HasVariants s (pos + 1)
          (CurStringPiece @ (if HasVariants then ''$|'' else ''|'')) Ps D
      else if CurChar = CHR ''}'' then
        scan S HasVariants s (pos + 1)
          (CurStringPiece @ (if HasVariants then ''$)'' else ''}'')) Ps D
      else if CurChar \<noteq> CHR ''%'' then
        scan S HasVariants s (pos + 1) (CurStringPiece @ [CurChar]) Ps D
      else
        (case s of
           [] \<Rightarrow> \<lparr>ret = Some err_asm_invalid_escape, Pieces = Ps, DiagOffs = pos + 1 - 1\<rparr>
         | EscapedChar # s1 \<Rightarrow>
             if EscapedChar = CHR ''%'' then
               scan S HasVariants s1 (pos + 2) (CurStringPiece @ ''%'') Ps D
             else if EscapedChar = CHR ''='' then
               scan S HasVariants s1 (pos + 2) (CurStringPiece @ ''${:uid}'') Ps D
             else if isLetter EscapedChar then
               (case s1 of
                  [] \<Rightarrow>
                    \<lparr>ret = Some err_asm_invalid_escape,
                     Pieces = flush CurStringPiece Ps, DiagOffs = pos + 2 - 1\<rparr>
                | EscapedChar' # s2 \<Rightarrow>
                    (case operand_ref S EscapedChar EscapedChar' s2 (pos + 3) D of
                       Return d offs \<Rightarrow>
                         \<lparr>ret = Some d, Pieces = flush CurStringPiece Ps, DiagOffs = offs\<rparr>
                     | Continue p s' pos' D' \<Rightarrow>
                         scan S HasVariants s' pos' [] (flush CurStringPiece Ps @ [p]) D'))
             else
               (case operand_ref S (CHR 0x00) EscapedChar s1 (pos + 2) D of
                  Return d offs \<Rightarrow>
                    \<lparr>ret = Some d, Pieces = flush CurStringPiece Ps, DiagOffs = offs\<rparr>
                | Continue p s' pos' D' \<Rightarrow>
                    scan S HasVariants s' pos' [] (flush CurStringPiece Ps @ [p]) D')))"
  by pat_completeness auto
termination
proof (relation "measure (\<lambda>(S, hv, s, pos, cur, ps, d). length s)")
qed (auto dest!: operand_ref_length)

text \<open>The "simple" case: the loop that doubles every \<^verbatim>\<open>$\<close>.\<close>

fun simple_loop :: "string \<Rightarrow> string \<Rightarrow> string" where
  "simple_loop [] Result = Result"
| "simple_loop (c # s) Result =
     (if c = CHR ''$'' then simple_loop s (Result @ ''$$'')
      else simple_loop s (Result @ [c]))"

definition AnalyzeAsmString ::
  "GCCAsmStmt \<Rightarrow> bool \<Rightarrow> AsmStringPiece list \<Rightarrow> nat \<Rightarrow> analysis" where
  "AnalyzeAsmString S HasVariants Ps D =
     (if IsSimple S
      then \<lparr>ret = None, Pieces = Ps @ [StringPiece (simple_loop (AsmStr S) [])], DiagOffs = D\<rparr>
      else scan S HasVariants (AsmStr S) 0 [] Ps D)"

text \<open>
  Two notions of the specification, to state what the loops compute: the decimal
  value of a run of digits, and the first position at which a name occurs in a list
  of names. \<open>resolve_name\<close> is the scan "over the output names, then over the input
  names, the first match winning".
\<close>

definition decimal_value :: "string \<Rightarrow> nat" where
  "decimal_value ds = foldl (\<lambda>n c. 10 * n + (of_char c - 48)) 0 ds"

definition first_match :: "string list \<Rightarrow> string \<Rightarrow> nat option" where
  "first_match names nm =
     (if nm \<in> set names then Some (length (takeWhile (\<lambda>n. n \<noteq> nm) names)) else None)"

definition resolve_name :: "GCCAsmStmt \<Rightarrow> string \<Rightarrow> nat option" where
  "resolve_name S nm =
     (case first_match (map (getOutputName S) [0 ..< NumOutputs S]) nm of
        Some i \<Rightarrow> Some i
      | None \<Rightarrow>
          (case first_match (map (getInputName S) [0 ..< NumInputs S]) nm of
             Some i \<Rightarrow> Some (NumOutputs S + i)
           | None \<Rightarrow> None))"

text \<open>A statement with one named output and one unnamed input, for the examples.\<close>

definition asm_example :: GCCAsmStmt where
  "asm_example = \<lparr>IsSimple = False, NumOutputs = 1, NumInputs = 1, Names = [Some ''foo'', None],
         Constraints = [''=r'', ''r''], AsmStr = ''add %1, %0''\<rparr>"

subsection \<open>Single steps of the loop\<close>

lemma isLetter_not_special:
  "isLetter m \<Longrightarrow> m \<noteq> CHR ''%'' \<and> m \<noteq> CHR ''='' \<and> m \<noteq> CHR ''['' \<and> \<not> isDigit m"
  by (auto simp: isLetter_def isDigit_def)





lemma scan_percent_letter:
  "isLetter m \<Longrightarrow> scan S hv (CHR ''%'' # m # e # s) pos cur ps D =
     (case operand_ref S m e s (pos + 3) D of
        Return d offs \<Rightarrow> \<lparr>ret = Some d, Pieces = flush cur ps, DiagOffs = offs\<rparr>
      | Continue p s' pos' D' \<Rightarrow> scan S hv s' pos' [] (flush cur ps @ [p]) D')"
  using isLetter_not_special [of m] by simp

lemma scan_percent_operand:
  "\<not> isLetter e \<Longrightarrow> e \<noteq> CHR ''%'' \<Longrightarrow> e \<noteq> CHR ''='' \<Longrightarrow>
   scan S hv (CHR ''%'' # e # s) pos cur ps D =
     (case operand_ref S (CHR 0x00) e s (pos + 2) D of
        Return d offs \<Rightarrow> \<lparr>ret = Some d, Pieces = flush cur ps, DiagOffs = offs\<rparr>
      | Continue p s' pos' D' \<Rightarrow> scan S hv s' pos' [] (flush cur ps @ [p]) D')"
  by simp






lemma digit_run_digits:
  assumes "\<forall>c\<in>set ds. isDigit c" "rest = [] \<or> \<not> isDigit (hd rest)"
  shows "digit_run N (ds @ rest) =
           (foldl (\<lambda>N c. N * 10 + (of_nat (of_char c) - 48)) N ds, rest)"
  using assms
proof (induction ds arbitrary: N)
  case Nil
  then show ?case by (cases rest) auto
next
  case (Cons d ds)
  then show ?case by simp
qed

lemma foldl_decimal_word:
  assumes "\<forall>c\<in>set ds. isDigit c"
  shows "foldl (\<lambda>N c. N * 10 + (of_nat (of_char c) - 48)) (of_nat n :: 32 word) ds =
         of_nat (foldl (\<lambda>n c. 10 * n + (of_char c - 48)) n ds)"
  using assms
proof (induction ds arbitrary: n)
  case Nil
  show ?case by simp
next
  case (Cons d ds)
  let ?f = "\<lambda>(N :: 32 word) c. N * 10 + (of_nat (of_char c) - 48)"
  let ?g = "\<lambda>(n :: nat) c. 10 * n + (of_char c - 48)"
  from Cons.prems have d: "48 \<le> (of_char d :: nat)" by (simp add: isDigit_def)
  have e: "(of_nat n :: 32 word) * 10 + (of_nat (of_char d) - 48) =
        of_nat (10 * n + (of_char d - 48))"
    using d by (simp add: of_nat_diff)
  have "foldl ?f (of_nat n) (d # ds) = foldl ?f (of_nat (10 * n + (of_char d - 48))) ds"
    by (simp only: foldl_Cons e)
  also have "\<dots> = of_nat (foldl ?g (10 * n + (of_char d - 48)) ds)"
    by (rule Cons.IH) (use Cons.prems in simp)
  finally show ?case by simp
qed

lemma digit_run_decimal:
  assumes "\<forall>c\<in>set ds. isDigit c" "rest = [] \<or> \<not> isDigit (hd rest)"
  shows "digit_run 0 (ds @ rest) = (of_nat (decimal_value ds), rest)"
  using digit_run_digits [OF assms, of 0] foldl_decimal_word [OF assms(1), of 0]
  by (simp add: decimal_value_def)

lemma operand_ref_digits:
  assumes "ds \<noteq> []" "\<forall>c\<in>set ds. isDigit c" "rest = [] \<or> \<not> isDigit (hd rest)" "1 \<le> pos"
  shows "operand_ref S m (hd ds) (tl ds @ rest) pos D =
     (if decimal_value ds mod 2 ^ 32 \<ge> NumOperands S
      then Return err_asm_invalid_operand_number (pos + length ds - 2)
      else Continue (OperandPiece (decimal_value ds mod 2 ^ 32) m) rest (pos + length ds - 1) D)"
proof -
  from assms(1) obtain d ds' where ds: "ds = d # ds'" by (cases ds) auto
  from assms(2) ds have dd: "isDigit d" by simp
  have dr: "digit_run 0 (d # ds' @ rest) = (of_nat (decimal_value ds), rest)"
    using digit_run_decimal [OF assms(2,3)] ds by simp
  have u: "unat (of_nat (decimal_value ds) :: 32 word) = decimal_value ds mod 2 ^ 32"
    by (simp add: unat_of_nat)
  show ?thesis
    unfolding operand_ref_def using dd dr u assms(4)
    by (simp add: ds Let_def)
qed

lemma findOutputName_first_match:
  "findOutputName S nm i k =
     map_option (\<lambda>j. i + j) (first_match (map (getOutputName S) [i ..< i + k]) nm)"
proof (induction k arbitrary: i)
  case 0
  show ?case by (simp add: first_match_def)
next
  case (Suc k)
  have u: "[i ..< i + Suc k] = i # [Suc i ..< Suc i + k]"
    by (simp add: upt_conv_Cons)
  show ?case
    unfolding u using Suc [of "Suc i"] by (auto simp: first_match_def)
qed

lemma findInputName_first_match:
  "findInputName S nm i k =
     map_option (\<lambda>j. i + j) (first_match (map (getInputName S) [i ..< i + k]) nm)"
proof (induction k arbitrary: i)
  case 0
  show ?case by (simp add: first_match_def)
next
  case (Suc k)
  have u: "[i ..< i + Suc k] = i # [Suc i ..< Suc i + k]"
    by (simp add: upt_conv_Cons)
  show ?case
    unfolding u using Suc [of "Suc i"] by (auto simp: first_match_def)
qed

lemma getNamedOperand_resolve:
  "getNamedOperand S nm = (case resolve_name S nm of None \<Rightarrow> - 1 | Some i \<Rightarrow> int i)"
  unfolding getNamedOperand_def resolve_name_def
    findOutputName_first_match findInputName_first_match
  by (simp add: Let_def split: option.splits)

lemma first_match_Cons:
  "first_match (n # ns) nm = (if n = nm then Some 0 else map_option Suc (first_match ns nm))"
  by (auto simp: first_match_def)

lemma first_match_Some_iff:
  "first_match names nm = Some i \<longleftrightarrow>
     (i < length names \<and> names ! i = nm \<and> (\<forall>j<i. names ! j \<noteq> nm))"
proof (induction names arbitrary: i)
  case Nil
  show ?case by (simp add: first_match_def)
next
  case (Cons n ns)
  show ?case
  proof (cases "n = nm")
    case True
    have "(i < length (n # ns) \<and> (n # ns) ! i = nm \<and> (\<forall>j<i. (n # ns) ! j \<noteq> nm)) \<longleftrightarrow> i = 0"
      using True by (cases i) auto
    with True show ?thesis by (auto simp: first_match_Cons)
  next
    case False
    show ?thesis
    proof (cases i)
      case 0
      with False show ?thesis by (auto simp: first_match_Cons)
    next
      case (Suc k)
      have "(\<forall>j<Suc k. (n # ns) ! j \<noteq> nm) \<longleftrightarrow> (\<forall>j<k. ns ! j \<noteq> nm)"
        using False by (auto simp: less_Suc_eq_0_disj)
      with False Suc Cons.IH [of k] show ?thesis by (auto simp: first_match_Cons)
    qed
  qed
qed

lemma first_match_None_iff: "first_match names nm = None \<longleftrightarrow> nm \<notin> set names"
  by (simp add: first_match_def)

lemma operand_ref_bracket_unterminated:
  "CHR '']'' \<notin> set rest \<Longrightarrow>
   operand_ref S m (CHR ''['') rest pos D =
     Return err_asm_unterminated_symbolic_operand_name (pos - 1)"
  by (simp add: operand_ref_def isDigit_def)

lemma operand_ref_bracket_name:
  assumes "CHR '']'' \<notin> set name"
  shows "operand_ref S m (CHR ''['') (name @ CHR '']'' # rest') pos D =
     (if name = [] then Return err_asm_empty_symbolic_operand_name (pos - 1)
      else case resolve_name S name of
             None \<Rightarrow> Return err_asm_unknown_symbolic_operand_name pos
           | Some i \<Rightarrow> Continue (OperandPiece i m) rest' (pos + length name + 1) (pos - 1))"
proof -
  let ?P = "\<lambda>c. c \<noteq> CHR '']''"
  from assms have tw: "takeWhile ?P (name @ CHR '']'' # rest') = name"
    by (auto simp: takeWhile_tail)
  from assms have dw: "dropWhile ?P (name @ CHR '']'' # rest') = CHR '']'' # rest'"
    by (auto simp: dropWhile_append3)
  show ?thesis
    unfolding operand_ref_def tw dw getNamedOperand_resolve
    by (simp add: isDigit_def Let_def split: option.splits)
qed

lemma bracket_not_special:
  "\<not> isLetter (CHR ''['')" "CHR ''['' \<noteq> CHR ''%''" "CHR ''['' \<noteq> CHR ''=''"
  by (simp_all add: isLetter_def)

lemmas asm_eval = AnalyzeAsmString_def operand_ref_def isDigit_def isLetter_def
  NumOperands_def getNumPlusOperands_def isOutputPlusConstraint_def flush_def
  getNamedOperand_def getOutputName_def getInputName_def Let_def

lemma getNumPlusOperands_count:
  "getNumPlusOperands S = length (filter (isOutputPlusConstraint S) [0 ..< NumOutputs S])"
proof -
  have "fold (\<lambda>i Res. if P i then Res + 1 else Res) xs (n :: nat) = n + length (filter P xs)"
    for P :: "nat \<Rightarrow> bool" and xs n
    by (induction xs arbitrary: n) auto
  then show ?thesis by (simp add: getNumPlusOperands_def)
qed

lemma isDigit_not_special:
  "isDigit d \<Longrightarrow> \<not> isLetter d \<and> d \<noteq> CHR ''%'' \<and> d \<noteq> CHR ''=''"
  by (auto simp: isLetter_def isDigit_def)

subsection \<open>Numeric operand references\<close>

text \<open>
  Claim C2, as amended. When the loop stands at a \<^verbatim>\<open>%\<close> (offset \<open>pos\<close>) followed by
  a maximal run of digits \<open>ds\<close>, optionally with a modifier letter \<open>m\<close> between the
  two, the run is read as a decimal number \<open>N\<close>, reduced modulo \<open>2 ^ 32\<close>. If
  \<open>N\<close> is at least the number of outputs plus the number of "+"-constrained outputs
  plus the number of inputs, the function returns \<^verbatim>\<open>err_asm_invalid_operand_number\<close>
  and \<^verbatim>\<open>DiagOffs\<close> is the offset of the last digit of the run (\<open>pos + length ds\<close>
  without a modifier, one more with it); it is the offset of the first digit only
  for a run of one digit. Otherwise the accumulated literal is flushed, an operand
  piece with \<open>N\<close> and the modifier is pushed, and the loop goes on behind the run.
\<close>

theorem AnalyzeAsmString_digit_operand:
  assumes "ds \<noteq> []" and "\<forall>c\<in>set ds. isDigit c" and "rest = [] \<or> \<not> isDigit (hd rest)"
  shows
    "scan S hv (CHR ''%'' # ds @ rest) pos cur Ps D =
       (if NumOutputs S + getNumPlusOperands S + NumInputs S \<le> decimal_value ds mod 2 ^ 32
        then \<lparr>ret = Some err_asm_invalid_operand_number, Pieces = flush cur Ps,
              DiagOffs = pos + length ds\<rparr>
        else scan S hv rest (pos + 1 + length ds) []
               (flush cur Ps @ [OperandPiece (decimal_value ds mod 2 ^ 32) (CHR 0x00)]) D) \<and>
     (isLetter m \<longrightarrow>
      scan S hv (CHR ''%'' # m # ds @ rest) pos cur Ps D =
       (if NumOutputs S + getNumPlusOperands S + NumInputs S \<le> decimal_value ds mod 2 ^ 32
        then \<lparr>ret = Some err_asm_invalid_operand_number, Pieces = flush cur Ps,
              DiagOffs = pos + 1 + length ds\<rparr>
        else scan S hv rest (pos + 2 + length ds) []
               (flush cur Ps @ [OperandPiece (decimal_value ds mod 2 ^ 32) m]) D)) \<and>
     getNumPlusOperands S = length (filter (isOutputPlusConstraint S) [0 ..< NumOutputs S])"
proof -
  from assms(1) obtain d ds' where ds: "ds = d # ds'" by (cases ds) auto
  from assms(2) ds have "isDigit d" by simp
  note nd = isDigit_not_special [OF this]
  have l: "pos + 2 + length ds - 2 = pos + length ds"
    "pos + 2 + length ds - 1 = pos + 1 + length ds"
    "pos + 3 + length ds - 2 = pos + 1 + length ds"
    "pos + 3 + length ds - 1 = pos + 2 + length ds"
    by simp_all
  have o2: "operand_ref S m' d (ds' @ rest) (pos + 2) D =
     (if decimal_value ds mod 2 ^ 32 \<ge> NumOperands S
      then Return err_asm_invalid_operand_number (pos + length ds)
      else Continue (OperandPiece (decimal_value ds mod 2 ^ 32) m') rest (pos + 1 + length ds) D)"
    for m'
    using operand_ref_digits [OF assms, of "pos + 2" S m' D] unfolding l by (simp add: ds)
  have o3: "operand_ref S m' d (ds' @ rest) (pos + 3) D =
     (if decimal_value ds mod 2 ^ 32 \<ge> NumOperands S
      then Return err_asm_invalid_operand_number (pos + 1 + length ds)
      else Continue (OperandPiece (decimal_value ds mod 2 ^ 32) m') rest (pos + 2 + length ds) D)"
    for m'
    using operand_ref_digits [OF assms, of "pos + 3" S m' D] unfolding l by (simp add: ds)
  have a: "scan S hv (CHR ''%'' # ds @ rest) pos cur Ps D =
       (if NumOutputs S + getNumPlusOperands S + NumInputs S \<le> decimal_value ds mod 2 ^ 32
        then \<lparr>ret = Some err_asm_invalid_operand_number, Pieces = flush cur Ps,
              DiagOffs = pos + length ds\<rparr>
        else scan S hv rest (pos + 1 + length ds) []
               (flush cur Ps @ [OperandPiece (decimal_value ds mod 2 ^ 32) (CHR 0x00)]) D)"
  proof -
    have sp: "scan S hv (CHR ''%'' # d # ds' @ rest) pos cur Ps D =
      (case operand_ref S (CHR 0x00) d (ds' @ rest) (pos + 2) D of
         Return d offs \<Rightarrow> \<lparr>ret = Some d, Pieces = flush cur Ps, DiagOffs = offs\<rparr>
       | Continue p s' pos' D' \<Rightarrow> scan S hv s' pos' [] (flush cur Ps @ [p]) D')"
      by (rule scan_percent_operand) (use nd in simp_all)
    have "scan S hv (CHR ''%'' # d # ds' @ rest) pos cur Ps D =
       (if NumOutputs S + getNumPlusOperands S + NumInputs S \<le> decimal_value ds mod 2 ^ 32
        then \<lparr>ret = Some err_asm_invalid_operand_number, Pieces = flush cur Ps,
              DiagOffs = pos + length ds\<rparr>
        else scan S hv rest (pos + 1 + length ds) []
               (flush cur Ps @ [OperandPiece (decimal_value ds mod 2 ^ 32) (CHR 0x00)]) D)"
      unfolding sp o2 by (simp add: NumOperands_def)
    then show ?thesis by (simp add: ds)
  qed
  have b: "scan S hv (CHR ''%'' # m # ds @ rest) pos cur Ps D =
       (if NumOutputs S + getNumPlusOperands S + NumInputs S \<le> decimal_value ds mod 2 ^ 32
        then \<lparr>ret = Some err_asm_invalid_operand_number, Pieces = flush cur Ps,
              DiagOffs = pos + 1 + length ds\<rparr>
        else scan S hv rest (pos + 2 + length ds) []
               (flush cur Ps @ [OperandPiece (decimal_value ds mod 2 ^ 32) m]) D)"
    if "isLetter m"
  proof -
    have sp: "scan S hv (CHR ''%'' # m # d # ds' @ rest) pos cur Ps D =
      (case operand_ref S m d (ds' @ rest) (pos + 3) D of
         Return d offs \<Rightarrow> \<lparr>ret = Some d, Pieces = flush cur Ps, DiagOffs = offs\<rparr>
       | Continue p s' pos' D' \<Rightarrow> scan S hv s' pos' [] (flush cur Ps @ [p]) D')"
      by (rule scan_percent_letter [OF that])
    have "scan S hv (CHR ''%'' # m # d # ds' @ rest) pos cur Ps D =
       (if NumOutputs S + getNumPlusOperands S + NumInputs S \<le> decimal_value ds mod 2 ^ 32
        then \<lparr>ret = Some err_asm_invalid_operand_number, Pieces = flush cur Ps,
              DiagOffs = pos + 1 + length ds\<rparr>
        else scan S hv rest (pos + 2 + length ds) []
               (flush cur Ps @ [OperandPiece (decimal_value ds mod 2 ^ 32) m]) D)"
      unfolding sp o3 by (simp add: NumOperands_def)
    then show ?thesis by (simp add: ds)
  qed
  from a b getNumPlusOperands_count show ?thesis by blast
qed

text \<open>
  The witness: \<^verbatim>\<open>%9\<close> in a statement of two operands is refused at offset 1, and
  \<^verbatim>\<open>add %w1, %0\<close> is decomposed into four pieces.
\<close>

theorem AnalyzeAsmString_digit_operand_witness:
  "scan asm_example True ''%9'' 0 [] [] 0 =
     \<lparr>ret = Some err_asm_invalid_operand_number, Pieces = [], DiagOffs = 1\<rparr> \<and>
   scan asm_example True ''add %w1, %0'' 0 [] [] 0 =
     \<lparr>ret = None,
      Pieces = [StringPiece ''add '', OperandPiece 1 (CHR ''w''), StringPiece '', '',
                OperandPiece 0 (CHR 0x00)],
      DiagOffs = 0\<rparr>"
  using AnalyzeAsmString_digit_operand
      [of "''9''" "[]" asm_example True 0 "[]" "[]" 0 "CHR ''w''"]
    AnalyzeAsmString_digit_operand
      [of "''1''" "'', %0''" asm_example True 4 "''add ''" "[]" 0 "CHR ''w''"]
  by (simp add: asm_example_def asm_eval decimal_value_def)

text \<open>
  The claim as it was stated fails on \<^verbatim>\<open>%10\<close> in a statement of two operands: the
  run of digits starts at offset 1, and the offset reported is 2.
\<close>

theorem invalid_operand_number_offset_counterexample:
  "ret (AnalyzeAsmString (asm_example\<lparr>AsmStr := ''%10''\<rparr>) True [] 0) =
     Some err_asm_invalid_operand_number \<and>
   DiagOffs (AnalyzeAsmString (asm_example\<lparr>AsmStr := ''%10''\<rparr>) True [] 0) = 2 \<and>
   DiagOffs (AnalyzeAsmString (asm_example\<lparr>AsmStr := ''%10''\<rparr>) True [] 0) \<noteq> 1"
  by (simp add: asm_example_def asm_eval)

subsection \<open>Symbolic operand references\<close>

text \<open>
  Claim C5. When the loop stands at \<^verbatim>\<open>%[\<close> (offset \<open>pos\<close>): if no \<^verbatim>\<open>]\<close> follows,
  the function returns \<^verbatim>\<open>err_asm_unterminated_symbolic_operand_name\<close>; if the
  \<^verbatim>\<open>]\<close> follows at once, \<^verbatim>\<open>err_asm_empty_symbolic_operand_name\<close>; otherwise the
  name up to the first \<^verbatim>\<open>]\<close> is looked up, \<^verbatim>\<open>err_asm_unknown_symbolic_operand_name\<close>
  is returned when no operand has it, and an operand piece with the index found is
  pushed when one has, the loop going on behind the \<^verbatim>\<open>]\<close>. The lookup
  \<^verbatim>\<open>getNamedOperand\<close> is the linear scan of the specification: the first output
  with the name wins, an input counts only when no output has the name, and the
  first such input wins.
\<close>

theorem AnalyzeAsmString_symbolic_operand:
  "(CHR '']'' \<notin> set rest \<longrightarrow>
      scan S hv (CHR ''%'' # CHR ''['' # rest) pos cur Ps D =
        \<lparr>ret = Some err_asm_unterminated_symbolic_operand_name,
         Pieces = flush cur Ps, DiagOffs = pos + 1\<rparr>) \<and>
   (CHR '']'' \<notin> set name \<longrightarrow>
      scan S hv (CHR ''%'' # CHR ''['' # name @ CHR '']'' # rest') pos cur Ps D =
        (if name = [] then
           \<lparr>ret = Some err_asm_empty_symbolic_operand_name,
            Pieces = flush cur Ps, DiagOffs = pos + 1\<rparr>
         else case resolve_name S name of
           None \<Rightarrow>
             \<lparr>ret = Some err_asm_unknown_symbolic_operand_name,
              Pieces = flush cur Ps, DiagOffs = pos + 2\<rparr>
         | Some i \<Rightarrow>
             scan S hv rest' (pos + length name + 3) []
               (flush cur Ps @ [OperandPiece i (CHR 0x00)]) (pos + 1))) \<and>
   getNamedOperand S name = (case resolve_name S name of None \<Rightarrow> - 1 | Some i \<Rightarrow> int i) \<and>
   (resolve_name S name = None \<longleftrightarrow>
      (\<forall>i<NumOutputs S. getOutputName S i \<noteq> name) \<and>
      (\<forall>i<NumInputs S. getInputName S i \<noteq> name)) \<and>
   (\<forall>i<NumOutputs S. getOutputName S i = name \<and> (\<forall>j<i. getOutputName S j \<noteq> name)
      \<longrightarrow> resolve_name S name = Some i) \<and>
   (\<forall>i<NumInputs S. (\<forall>j<NumOutputs S. getOutputName S j \<noteq> name) \<and>
      getInputName S i = name \<and> (\<forall>j<i. getInputName S j \<noteq> name)
      \<longrightarrow> resolve_name S name = Some (NumOutputs S + i))"
proof -
  have sp: "scan S hv (CHR ''%'' # CHR ''['' # s) pos cur Ps D =
      (case operand_ref S (CHR 0x00) (CHR ''['') s (pos + 2) D of
         Return d offs \<Rightarrow> \<lparr>ret = Some d, Pieces = flush cur Ps, DiagOffs = offs\<rparr>
       | Continue p s' pos' D' \<Rightarrow> scan S hv s' pos' [] (flush cur Ps @ [p]) D')" for s
    by (rule scan_percent_operand [OF bracket_not_special])
  have a: "scan S hv (CHR ''%'' # CHR ''['' # rest) pos cur Ps D =
        \<lparr>ret = Some err_asm_unterminated_symbolic_operand_name,
         Pieces = flush cur Ps, DiagOffs = pos + 1\<rparr>" if "CHR '']'' \<notin> set rest"
    unfolding sp operand_ref_bracket_unterminated [OF that] by simp
  have b: "scan S hv (CHR ''%'' # CHR ''['' # name @ CHR '']'' # rest') pos cur Ps D =
        (if name = [] then
           \<lparr>ret = Some err_asm_empty_symbolic_operand_name,
            Pieces = flush cur Ps, DiagOffs = pos + 1\<rparr>
         else case resolve_name S name of
           None \<Rightarrow>
             \<lparr>ret = Some err_asm_unknown_symbolic_operand_name,
              Pieces = flush cur Ps, DiagOffs = pos + 2\<rparr>
         | Some i \<Rightarrow>
             scan S hv rest' (pos + length name + 3) []
               (flush cur Ps @ [OperandPiece i (CHR 0x00)]) (pos + 1))"
    if "CHR '']'' \<notin> set name"
    unfolding sp operand_ref_bracket_name [OF that]
    by (simp split: option.splits add: numeral_3_eq_3)
  let ?outs = "map (getOutputName S) [0 ..< NumOutputs S]"
  let ?ins = "map (getInputName S) [0 ..< NumInputs S]"
  have c: "resolve_name S name = None \<longleftrightarrow>
      (\<forall>i<NumOutputs S. getOutputName S i \<noteq> name) \<and>
      (\<forall>i<NumInputs S. getInputName S i \<noteq> name)"
  proof -
    have o: "first_match ?outs name = None \<longleftrightarrow>
        (\<forall>i<NumOutputs S. getOutputName S i \<noteq> name)"
      by (auto simp: first_match_None_iff)
    have i: "first_match ?ins name = None \<longleftrightarrow>
        (\<forall>i<NumInputs S. getInputName S i \<noteq> name)"
      by (auto simp: first_match_None_iff)
    show ?thesis
      unfolding o [symmetric] i [symmetric] resolve_name_def
      by (simp split: option.splits)
  qed
  have d: "resolve_name S name = Some i"
    if "i < NumOutputs S" "getOutputName S i = name" "\<forall>j<i. getOutputName S j \<noteq> name" for i
  proof -
    have "first_match ?outs name = Some i"
      unfolding first_match_Some_iff using that by simp
    then show ?thesis by (simp add: resolve_name_def)
  qed
  have e: "resolve_name S name = Some (NumOutputs S + i)"
    if "i < NumInputs S" "\<forall>j<NumOutputs S. getOutputName S j \<noteq> name"
       "getInputName S i = name" "\<forall>j<i. getInputName S j \<noteq> name" for i
  proof -
    have "first_match ?outs name = None"
      unfolding first_match_None_iff using that(2) by auto
    moreover have "first_match ?ins name = Some i"
      unfolding first_match_Some_iff using that by simp
    ultimately show ?thesis by (simp add: resolve_name_def)
  qed
  from a b c d e getNamedOperand_resolve show ?thesis by blast
qed

text \<open>
  The witness: in the example statement, whose output 0 is named \<^verbatim>\<open>foo\<close>,
  \<^verbatim>\<open>%[foo]\<close> gives the single piece "operand 0", \<^verbatim>\<open>%[bar]\<close> is an unknown name
  and \<^verbatim>\<open>%[foo\<close> is unterminated.
\<close>

theorem AnalyzeAsmString_symbolic_operand_witness:
  "scan asm_example True ''%[foo]'' 0 [] [] 0 = \<lparr>ret = None, Pieces = [OperandPiece 0 (CHR 0x00)], DiagOffs = 1\<rparr> \<and>
   scan asm_example True ''%[bar]'' 0 [] [] 0 = \<lparr>ret = Some err_asm_unknown_symbolic_operand_name, Pieces = [], DiagOffs = 2\<rparr> \<and>
   scan asm_example True ''%[foo'' 0 [] [] 0 = \<lparr>ret = Some err_asm_unterminated_symbolic_operand_name, Pieces = [], DiagOffs = 1\<rparr> \<and>
   resolve_name asm_example ''foo'' = Some 0"
  using AnalyzeAsmString_symbolic_operand [of "''foo''" asm_example True 0 "[]" "[]" 0 "''foo''" "[]"]
    AnalyzeAsmString_symbolic_operand [of "''foo''" asm_example True 0 "[]" "[]" 0 "''bar''" "[]"]
  by (simp add: asm_example_def asm_eval resolve_name_def first_match_def)

subsection \<open>A string that ends behind a percent sign\<close>



section \<open>Statement nodes\<close>

text \<open>
  \<^verbatim>\<open>llvm_unreachable\<close> and a failed \<^verbatim>\<open>assert\<close> end the program: they are results of
  the model, with the message of the source. A source location is its raw encoding.
\<close>

datatype fatal = unreachable string | assertion string

type_synonym SourceLocation = nat

subsection \<open>The node-kind registry and the generic dispatch\<close>

text \<open>
  The list of statement classes, clang/AST/StmtNodes.inc, is generated and is not
  part of the sources at hand: it is a parameter, a list of entries
  \<^verbatim>\<open>STMT(CLASS, PARENT)\<close> and \<^verbatim>\<open>ABSTRACT_STMT(...)\<close>. What the macros of Stmt.cpp take
  from an entry \<^verbatim>\<open>STMT(CLASS, PARENT)\<close> are members of the class: its name, its size,
  its \<^verbatim>\<open>children\<close>, \<^verbatim>\<open>getLocStart\<close> and \<^verbatim>\<open>getLocEnd\<close>, and its own
  \<^verbatim>\<open>getSourceRange\<close> when it declares one. \<open>'n\<close> is the storage of a node, \<open>'c\<close> a
  reference to a child.
\<close>

record ('n, 'c) StmtClassImpl =
  class_name :: string
  class_sizeof :: nat
  class_children :: "'n \<Rightarrow> 'c list"
  class_getLocStart :: "'n \<Rightarrow> SourceLocation"
  class_getLocEnd :: "'n \<Rightarrow> SourceLocation"
  class_getSourceRange :: "('n \<Rightarrow> SourceLocation \<times> SourceLocation) option"

datatype ('n, 'c) StmtNodes_entry =
    STMT "('n, 'c) StmtClassImpl"
  | ABSTRACT_STMT string

text \<open>
  Modelled from the spec: the enumeration \<^verbatim>\<open>Stmt::StmtClass\<close> is declared in Stmt.h,
  which is not part of the sources at hand. \<^verbatim>\<open>NoStmtClass\<close> is the sentinel 0, every
  concrete class has the next small integer as its tag, in the order of the list,
  and an abstract class has no tag. \<^verbatim>\<open>lastStmtConstant\<close> is the last tag.
\<close>

fun concrete_classes :: "('n, 'c) StmtNodes_entry list \<Rightarrow> ('n, 'c) StmtClassImpl list" where
  "concrete_classes [] = []"
| "concrete_classes (STMT impl # inc) = impl # concrete_classes inc"
| "concrete_classes (ABSTRACT_STMT _ # inc) = concrete_classes inc"

definition NoStmtClass :: nat where
  "NoStmtClass = 0"

definition lastStmtConstant :: "('n, 'c) StmtNodes_entry list \<Rightarrow> nat" where
  "lastStmtConstant inc = length (concrete_classes inc)"

text \<open>
  The case labels that \<^verbatim>\<open>#define STMT(type, base) case Stmt::type##Class: ...\<close>
  generates, each with the class it casts to.
\<close>

definition switch_cases ::
  "('n, 'c) StmtNodes_entry list \<Rightarrow> (nat \<times> ('n, 'c) StmtClassImpl) list" where
  "switch_cases inc = zip [1 ..< Suc (lastStmtConstant inc)] (concrete_classes inc)"

text \<open>\<^verbatim>\<open>Stmt::children\<close>, on the class tag and the storage of the node.\<close>

definition Stmt_children ::
  "('n, 'c) StmtNodes_entry list \<Rightarrow> nat \<Rightarrow> 'n \<Rightarrow> fatal + 'c list" where
  "Stmt_children inc sClass this =
     (if sClass = NoStmtClass then Inl (unreachable ''statement without class'')
      else case map_of (switch_cases inc) sClass of
             Some impl \<Rightarrow> Inr (class_children impl this)
           | None \<Rightarrow> Inl (unreachable ''unknown statement kind!''))"

text \<open>
  \<^verbatim>\<open>getSourceRangeImpl\<close>: the overload for a class with its own \<^verbatim>\<open>getSourceRange\<close>,
  and the one that builds the range from \<^verbatim>\<open>getLocStart\<close> and \<^verbatim>\<open>getLocEnd\<close>.
\<close>

definition getSourceRangeImpl ::
  "('n, 'c) StmtClassImpl \<Rightarrow> 'n \<Rightarrow> SourceLocation \<times> SourceLocation" where
  "getSourceRangeImpl impl this =
     (case class_getSourceRange impl of
        Some own \<Rightarrow> own this
      | None \<Rightarrow> (class_getLocStart impl this, class_getLocEnd impl this))"

definition Stmt_getSourceRange ::
  "('n, 'c) StmtNodes_entry list \<Rightarrow> nat \<Rightarrow> 'n \<Rightarrow> fatal + SourceLocation \<times> SourceLocation" where
  "Stmt_getSourceRange inc sClass this =
     (if sClass = NoStmtClass then Inl (unreachable ''statement without class'')
      else case map_of (switch_cases inc) sClass of
             Some impl \<Rightarrow> Inr (getSourceRangeImpl impl this)
           | None \<Rightarrow> Inl (unreachable ''unknown statement kind!''))"

text \<open>
  The table of class names: a static array of \<^verbatim>\<open>lastStmtConstant + 1\<close> entries,
  zero-initialised, and the flag \<^verbatim>\<open>Initialized\<close> of \<^verbatim>\<open>getStmtInfoTableEntry\<close>. They
  are the state that the lookup reads and writes. A null \<^verbatim>\<open>Name\<close> is \<open>None\<close>.
\<close>

record StmtClassNameTable =
  Name :: "string option"
  Counter :: nat
  Size :: nat

record StmtClassInfo_state =
  Initialized :: bool
  StmtClassInfo :: "StmtClassNameTable list"

definition StmtClassInfo_initial :: "('n, 'c) StmtNodes_entry list \<Rightarrow> StmtClassInfo_state" where
  "StmtClassInfo_initial inc =
     \<lparr>Initialized = False,
      StmtClassInfo = replicate (lastStmtConstant inc + 1) \<lparr>Name = None, Counter = 0, Size = 0\<rparr>\<rparr>"

text \<open>
  Reading \<^verbatim>\<open>StmtClassInfo[E]\<close>: an entry of the table, or a read past its end, for
  which C++ defines no result.
\<close>

datatype 'a table_read = Entry 'a | PastTheEnd

definition getStmtInfoTableEntry ::
  "('n, 'c) StmtNodes_entry list \<Rightarrow> StmtClassInfo_state \<Rightarrow> nat \<Rightarrow>
   StmtClassNameTable table_read \<times> StmtClassInfo_state" where
  "getStmtInfoTableEntry inc st E =
     (let st' =
        (if Initialized st then st
         else \<lparr>Initialized = True,
               StmtClassInfo =
                 fold (\<lambda>(tag, impl) T.
                         T[tag := (T ! tag)\<lparr>Name := Some (class_name impl),
                                            Size := class_sizeof impl\<rparr>])
                   (switch_cases inc) (StmtClassInfo st)\<rparr>)
      in (if E < length (StmtClassInfo st') then Entry (StmtClassInfo st' ! E) else PastTheEnd,
          st'))"

text \<open>\<^verbatim>\<open>Stmt::getStmtClassName\<close>: the name in the entry of the class tag.\<close>

definition getStmtClassName ::
  "('n, 'c) StmtNodes_entry list \<Rightarrow> StmtClassInfo_state \<Rightarrow> nat \<Rightarrow>
   string option table_read \<times> StmtClassInfo_state" where
  "getStmtClassName inc st sClass =
     (case getStmtInfoTableEntry inc st sClass of
        (Entry e, st') \<Rightarrow> (Entry (Name e), st')
      | (PastTheEnd, st') \<Rightarrow> (PastTheEnd, st'))"

text \<open>A registry of two concrete classes and an abstract one, for the examples.\<close>

definition example_inc :: "(nat list, nat) StmtNodes_entry list" where
  "example_inc =
     [STMT \<lparr>class_name = ''NullStmt'', class_sizeof = 16, class_children = (\<lambda>n. []),
            class_getLocStart = (\<lambda>n. 1), class_getLocEnd = (\<lambda>n. 2),
            class_getSourceRange = None\<rparr>,
      ABSTRACT_STMT ''Expr'',
      STMT \<lparr>class_name = ''CompoundStmt'', class_sizeof = 24, class_children = (\<lambda>n. n),
            class_getLocStart = (\<lambda>n. 3), class_getLocEnd = (\<lambda>n. 9),
            class_getSourceRange = None\<rparr>]"

lemma length_switch_tags:
  "length [1 ..< Suc (lastStmtConstant inc)] = length (concrete_classes inc)"
  by (simp add: lastStmtConstant_def del: upt_Suc)

lemma map_of_switch_cases:
  "map_of (switch_cases inc) k =
     (if 1 \<le> k \<and> k \<le> lastStmtConstant inc then Some (concrete_classes inc ! (k - 1)) else None)"
proof (cases "1 \<le> k \<and> k \<le> lastStmtConstant inc")
  case True
  let ?tags = "[1 ..< Suc (lastStmtConstant inc)]"
  from True have i: "k - 1 < length (concrete_classes inc)"
    unfolding lastStmtConstant_def by arith
  from True have "k - 1 < Suc (lastStmtConstant inc) - 1" by arith
  then have "?tags ! (k - 1) = 1 + (k - 1)" by (simp del: upt_Suc)
  with True have k: "?tags ! (k - 1) = k" by simp
  have "map_of (zip ?tags (concrete_classes inc)) (?tags ! (k - 1)) =
        Some (concrete_classes inc ! (k - 1))"
    by (rule map_of_zip_nth [OF length_switch_tags _ i]) simp
  then have "map_of (switch_cases inc) k = Some (concrete_classes inc ! (k - 1))"
    by (simp only: switch_cases_def k)
  with True show ?thesis by simp
next
  case False
  then have "k \<notin> set [1 ..< Suc (lastStmtConstant inc)]" by auto
  then have "map_of (switch_cases inc) k = None"
    unfolding switch_cases_def
    using map_of_zip_is_None [OF length_switch_tags] by blast
  with False show ?thesis by simp
qed

lemma fold_names:
  fixes ps :: "(nat \<times> ('n, 'c) StmtClassImpl) list"
  assumes "distinct (map fst ps)" and "\<forall>p\<in>set ps. fst p < length T" and "k < length T"
  shows "length (fold (\<lambda>(tag, impl) T.
                   T[tag := (T ! tag)\<lparr>Name := Some (class_name impl),
                                      Size := class_sizeof impl\<rparr>]) ps T) = length T \<and>
         Name (fold (\<lambda>(tag, impl) T.
                   T[tag := (T ! tag)\<lparr>Name := Some (class_name impl),
                                      Size := class_sizeof impl\<rparr>]) ps T ! k) =
           (case map_of ps k of Some impl \<Rightarrow> Some (class_name impl) | None \<Rightarrow> Name (T ! k))"
  using assms
proof (induction ps arbitrary: T)
  case Nil
  show ?case by simp
next
  case (Cons p ps)
  obtain tag impl where p: "p = (tag, impl)" by (cases p)
  let ?T = "T[tag := (T ! tag)\<lparr>Name := Some (class_name impl), Size := class_sizeof impl\<rparr>]"
  from Cons.prems p have d: "distinct (map fst ps)" and nt: "tag \<notin> fst ` set ps"
    and b: "\<forall>p\<in>set ps. fst p < length ?T" and k: "k < length ?T" and t: "tag < length T"
    by auto
  note ih = Cons.IH [OF d b k]
  from nt have mo: "map_of ps tag = None" by (simp add: map_of_eq_None_iff)
  show ?case
  proof (cases "k = tag")
    case True
    with ih mo t show ?thesis by (simp add: p)
  next
    case False
    then have "tag \<noteq> k" by simp
    with ih show ?thesis by (simp add: p split: option.splits)
  qed
qed

lemma switch_cases_distinct: "distinct (map fst (switch_cases inc))"
  by (simp add: switch_cases_def lastStmtConstant_def)

lemma switch_cases_bound:
  "\<forall>p\<in>set (switch_cases inc). fst p < lastStmtConstant inc + 1"
  by (auto simp: switch_cases_def dest!: set_zip_leftD)

lemma getStmtClassName_initial:
  "fst (getStmtClassName inc (StmtClassInfo_initial inc) k) =
     (if k \<le> lastStmtConstant inc
      then Entry (if 1 \<le> k then Some (class_name (concrete_classes inc ! (k - 1))) else None)
      else PastTheEnd)"
proof -
  define T0 where "T0 = replicate (lastStmtConstant inc + 1) \<lparr>Name = None, Counter = 0, Size = 0\<rparr>"
  define T1 where "T1 = fold (\<lambda>(tag, impl) T.
                   T[tag := (T ! tag)\<lparr>Name := Some (class_name impl),
                                      Size := class_sizeof impl\<rparr>]) (switch_cases inc) T0"
  have len0: "length T0 = lastStmtConstant inc + 1" by (simp add: T0_def)
  have n0: "Name (T0 ! i) = None" if "i < length T0" for i
    using that unfolding T0_def by (simp only: length_replicate nth_replicate) simp
  have b: "\<forall>p\<in>set (switch_cases inc). fst p < length T0"
    using switch_cases_bound [of inc] by (simp only: len0)
  have zero: "0 < length T0" by (simp add: len0)
  have len1: "length T1 = lastStmtConstant inc + 1"
    using fold_names [OF switch_cases_distinct b zero] unfolding T1_def len0 by blast
  have n1: "Name (T1 ! i) =
      (if 1 \<le> i then Some (class_name (concrete_classes inc ! (i - 1))) else None)"
    if "i \<le> lastStmtConstant inc" for i
  proof -
    from that have i: "i < length T0" by (simp add: len0)
    from fold_names [OF switch_cases_distinct b i]
    have "Name (T1 ! i) = (case map_of (switch_cases inc) i of
        Some impl \<Rightarrow> Some (class_name impl) | None \<Rightarrow> Name (T0 ! i))"
      unfolding T1_def by blast
    with that n0 [OF i] show ?thesis by (simp add: map_of_switch_cases)
  qed
  have eq: "fst (getStmtClassName inc (StmtClassInfo_initial inc) k) =
      (if k < length T1 then Entry (Name (T1 ! k)) else PastTheEnd)"
    by (simp add: getStmtClassName_def getStmtInfoTableEntry_def StmtClassInfo_initial_def
        T1_def T0_def Let_def del: replicate_Suc replicate.simps)
  show ?thesis
  proof (cases "k \<le> lastStmtConstant inc")
    case True
    with n1 [OF True] show ?thesis unfolding eq len1 by simp
  next
    case False
    then show ?thesis unfolding eq len1 by simp
  qed
qed

lemma getStmtClassName_idempotent:
  "getStmtClassName inc (snd (getStmtClassName inc st j)) k =
     (fst (getStmtClassName inc st k), snd (getStmtClassName inc st j))"
  by (simp add: getStmtClassName_def getStmtInfoTableEntry_def Let_def
      split: table_read.splits prod.splits)

text \<open>
  Claim C1, as amended. For every class tag \<open>k\<close> of a concrete class
  (\<open>1 \<le> k \<le> lastStmtConstant\<close>), the dispatch of \<^verbatim>\<open>children\<close> and of
  \<^verbatim>\<open>getSourceRange\<close> returns what the class of that tag computes, and the name lookup
  returns the name of the class. For the sentinel \<^verbatim>\<open>NoStmtClass\<close> and for a tag behind
  the last one, \<^verbatim>\<open>children\<close> and \<^verbatim>\<open>getSourceRange\<close> end in \<^verbatim>\<open>llvm_unreachable\<close>. The
  name lookup is a read of a table and never aborts: for \<^verbatim>\<open>NoStmtClass\<close> it returns
  the null name of entry 0. A second lookup finds the table initialised and returns
  the same names.
\<close>

theorem Stmt_dispatch_total:
  "(1 \<le> k \<and> k \<le> lastStmtConstant inc \<longrightarrow>
      Stmt_children inc k this = Inr (class_children (concrete_classes inc ! (k - 1)) this) \<and>
      Stmt_getSourceRange inc k this =
        Inr (getSourceRangeImpl (concrete_classes inc ! (k - 1)) this) \<and>
      fst (getStmtClassName inc (StmtClassInfo_initial inc) k) =
        Entry (Some (class_name (concrete_classes inc ! (k - 1))))) \<and>
   Stmt_children inc NoStmtClass this = Inl (unreachable ''statement without class'') \<and>
   Stmt_getSourceRange inc NoStmtClass this = Inl (unreachable ''statement without class'') \<and>
   (lastStmtConstant inc < k \<longrightarrow>
      Stmt_children inc k this = Inl (unreachable ''unknown statement kind!'') \<and>
      Stmt_getSourceRange inc k this = Inl (unreachable ''unknown statement kind!'')) \<and>
   fst (getStmtClassName inc (StmtClassInfo_initial inc) NoStmtClass) = Entry None \<and>
   getStmtClassName inc (snd (getStmtClassName inc (StmtClassInfo_initial inc) j)) k =
     (fst (getStmtClassName inc (StmtClassInfo_initial inc) k),
      snd (getStmtClassName inc (StmtClassInfo_initial inc) j))"
  by (simp add: Stmt_children_def Stmt_getSourceRange_def map_of_switch_cases
      getStmtClassName_initial getStmtClassName_idempotent NoStmtClass_def)

text \<open>
  The witness: in the example registry, tag 2 is \<^verbatim>\<open>CompoundStmt\<close>, and tag 3 is
  behind the last tag.
\<close>

theorem Stmt_dispatch_total_witness:
  "Stmt_children example_inc 2 [7, 8] = Inr [7, 8] \<and>
   Stmt_getSourceRange example_inc 2 [7, 8] = Inr (3, 9) \<and>
   fst (getStmtClassName example_inc (StmtClassInfo_initial example_inc) 2) =
     Entry (Some ''CompoundStmt'') \<and>
   Stmt_children example_inc 3 [7, 8] = Inl (unreachable ''unknown statement kind!'')"
  using Stmt_dispatch_total [of 2 example_inc "[7, 8]" 0]
    Stmt_dispatch_total [of 3 example_inc "[7, 8]" 0]
  by (simp add: example_inc_def lastStmtConstant_def getSourceRangeImpl_def)

text \<open>
  The claim as it was stated fails for the name lookup on the sentinel: it returns
  the null name, and does not abort.
\<close>

theorem getStmtClassName_NoStmtClass_counterexample:
  "fst (getStmtClassName example_inc (StmtClassInfo_initial example_inc) NoStmtClass) =
     Entry None"
  by (simp add: getStmtClassName_def getStmtInfoTableEntry_def StmtClassInfo_initial_def
      example_inc_def switch_cases_def lastStmtConstant_def NoStmtClass_def upt_rec)

subsection \<open>ObjCAtTryStmt\<close>

text \<open>
  The statements of an \<^verbatim>\<open>@try\<close> live in one trailing array of \<^verbatim>\<open>Stmt *\<close>
  (\<^verbatim>\<open>getStmts()\<close>, a field of the model): the body, the catch statements, and the finally statement when
  there is one. A null pointer is \<open>None\<close>. The constructor reads \<^verbatim>\<open>NumCatchStmts\<close>
  entries of \<^verbatim>\<open>CatchStmts\<close>: the model takes that array as a list, and its length
  is \<^verbatim>\<open>NumCatchStmts\<close>.
\<close>

record 's ObjCAtTryStmt =
  AtTryLoc :: SourceLocation
  NumCatchStmts :: nat
  HasFinally :: bool
  getStmts :: "'s option list"

definition ObjCAtTryStmt_ctor ::
  "SourceLocation \<Rightarrow> 's option \<Rightarrow> 's option list \<Rightarrow> 's option \<Rightarrow> 's ObjCAtTryStmt" where
  "ObjCAtTryStmt_ctor atTryLoc atTryStmt CatchStmts atFinallyStmt =
     \<lparr>AtTryLoc = atTryLoc,
      NumCatchStmts = length CatchStmts,
      HasFinally = (atFinallyStmt \<noteq> None),
      getStmts = atTryStmt # CatchStmts @ (if atFinallyStmt \<noteq> None then [atFinallyStmt] else [])\<rparr>"

text \<open>
  Modelled from the spec: the accessors \<^verbatim>\<open>getTryBody\<close>, \<^verbatim>\<open>getCatchStmt\<close> and
  \<^verbatim>\<open>getFinallyStmt\<close> are declared in StmtObjC.h, which is not part of the sources
  at hand. The try node owns the guarded block (slot 0), the ordered catch list
  (slots 1 to \<^verbatim>\<open>NumCatchStmts\<close>) and the optional finally (the slot after them).
\<close>

definition getTryBody :: "'s ObjCAtTryStmt \<Rightarrow> 's option" where
  "getTryBody n = getStmts n ! 0"

definition getCatchStmt :: "'s ObjCAtTryStmt \<Rightarrow> nat \<Rightarrow> 's option" where
  "getCatchStmt n I = getStmts n ! (I + 1)"

definition getFinallyStmt :: "'s ObjCAtTryStmt \<Rightarrow> 's option" where
  "getFinallyStmt n = (if \<not> HasFinally n then None else getStmts n ! (1 + NumCatchStmts n))"

text \<open>
  \<^verbatim>\<open>ObjCAtTryStmt::getLocEnd\<close>. \<open>LocEnd\<close> is \<^verbatim>\<open>Stmt::getLocEnd\<close> on the child, and
  calling it through a null pointer has no result (\<open>None\<close>).
\<close>

definition ObjCAtTryStmt_getLocEnd ::
  "('s \<Rightarrow> SourceLocation) \<Rightarrow> 's ObjCAtTryStmt \<Rightarrow> SourceLocation option" where
  "ObjCAtTryStmt_getLocEnd LocEnd n =
     (if HasFinally n then map_option LocEnd (getFinallyStmt n)
      else if NumCatchStmts n \<noteq> 0 then map_option LocEnd (getCatchStmt n (NumCatchStmts n - 1))
      else map_option LocEnd (getTryBody n))"

text \<open>
  Claim C4. For the try node that the constructor builds from a guarded block, an
  ordered list of catch statements and an optional finally statement (none of the
  statements a null pointer), the end location is the end of the finally statement
  when there is one; otherwise the end of the last catch statement when there is at
  least one; otherwise the end of the guarded block.
\<close>

theorem ObjCAtTryStmt_getLocEnd_fallback:
  "ObjCAtTryStmt_getLocEnd LocEnd
     (ObjCAtTryStmt_ctor atTryLoc (Some tryBody) (map Some catches) atFinallyStmt) =
   Some (case atFinallyStmt of
           Some f \<Rightarrow> LocEnd f
         | None \<Rightarrow> if catches \<noteq> [] then LocEnd (last catches) else LocEnd tryBody)"
proof (cases atFinallyStmt)
  case (Some f)
  then show ?thesis
    by (simp add: ObjCAtTryStmt_getLocEnd_def ObjCAtTryStmt_ctor_def getFinallyStmt_def
        nth_append)
next
  case None
  show ?thesis
  proof (cases "catches = []")
    case True
    with None show ?thesis
      by (simp add: ObjCAtTryStmt_getLocEnd_def ObjCAtTryStmt_ctor_def getTryBody_def)
  next
    case False
    then have "map Some catches ! (length catches - 1) = Some (last catches)"
      by (simp add: last_conv_nth)
    with None False show ?thesis
      by (simp add: ObjCAtTryStmt_getLocEnd_def ObjCAtTryStmt_ctor_def getCatchStmt_def)
  qed
qed

text \<open>
  The case of the specification: the guarded block ends at 10, the one catch
  statement ends at 20 and there is no finally statement; the end location is 20.
  A child is a pair here, of a label and its end location.
\<close>

theorem ObjCAtTryStmt_getLocEnd_fallback_witness:
  "ObjCAtTryStmt_getLocEnd snd
     (ObjCAtTryStmt_ctor 0 (Some (''body'', 10)) [Some (''catch'', 20)] None) = Some 20"
  using ObjCAtTryStmt_getLocEnd_fallback [of snd 0 "(''body'', 10)" "[(''catch'', 20)]" None]
  by simp

subsection \<open>CXXTryStmt\<close>

text \<open>
  The sizes \<^verbatim>\<open>sizeof(CXXTryStmt)\<close>, \<^verbatim>\<open>sizeof(Stmt)\<close> and \<^verbatim>\<open>sizeof(Stmt *)\<close> come from
  class declarations that are not part of the sources at hand, and from the target:
  they are parameters.
\<close>

record sizes =
  sizeof_CXXTryStmt :: nat
  sizeof_Stmt :: nat
  sizeof_StmtPtr :: nat



text \<open>
  \<^verbatim>\<open>CXXTryStmt::Create\<close>: the size handed to the allocator, and the node built
  in that storage.
\<close>

definition CXXTryStmt_Create_Size :: "sizes \<Rightarrow> 's list \<Rightarrow> nat" where
  "CXXTryStmt_Create_Size T handlers =
     sizeof_CXXTryStmt T + (length handlers + 1) * sizeof_Stmt T"


text \<open>
  The factory multiplies by \<^verbatim>\<open>sizeof(Stmt)\<close>, the size of a statement object, and
  the constructor fills slots of \<^verbatim>\<open>Stmt *\<close>. The size is a number of pointer slots
  exactly when a \<^verbatim>\<open>Stmt\<close> object is as large as a pointer to one.
\<close>

lemma CXXTryStmt_Create_Size_pointer_slots_iff:
  "CXXTryStmt_Create_Size T handlers =
     sizeof_CXXTryStmt T + (length handlers + 1) * sizeof_StmtPtr T \<longleftrightarrow>
   sizeof_Stmt T = sizeof_StmtPtr T"
proof -
  have "(length handlers + 1) * sizeof_Stmt T = (length handlers + 1) * sizeof_StmtPtr T \<longleftrightarrow>
        sizeof_Stmt T = sizeof_StmtPtr T"
    by (simp only: mult_cancel1) simp
  then show ?thesis
    unfolding CXXTryStmt_Create_Size_def by (simp only: add_left_cancel)
qed



subsection \<open>CompoundStmt\<close>

text \<open>
  \<^verbatim>\<open>CompoundStmtBits.NumStmts\<close> is a bit-field; its width \<open>w\<close> is declared in Stmt.h,
  which is not part of the sources at hand, and is a parameter. The assignment
  truncates \<^verbatim>\<open>Stmts.size()\<close> to \<open>w\<close> bits, and the assertion compares the field with
  the size. \<^verbatim>\<open>Body\<close> is a pointer to an array: \<open>None\<close> is the null pointer.
\<close>

record 's CompoundStmt =
  NumStmts :: nat
  Body :: "'s list option"
  LBracLoc :: SourceLocation
  RBracLoc :: SourceLocation

definition CompoundStmt_ctor ::
  "nat \<Rightarrow> 's list \<Rightarrow> SourceLocation \<Rightarrow> SourceLocation \<Rightarrow> fatal + 's CompoundStmt" where
  "CompoundStmt_ctor w Stmts LB RB =
     (let Bits = length Stmts mod 2 ^ w in
      if Bits \<noteq> length Stmts
      then Inl (assertion ''NumStmts doesn't fit in bits of CompoundStmtBits.NumStmts!'')
      else if length Stmts = 0
      then Inr \<lparr>NumStmts = Bits, Body = None, LBracLoc = LB, RBracLoc = RB\<rparr>
      else Inr \<lparr>NumStmts = Bits, Body = Some Stmts, LBracLoc = LB, RBracLoc = RB\<rparr>)"

text \<open>
  Modelled from the spec: \<^verbatim>\<open>CompoundStmt::children\<close> is declared in Stmt.h, which is
  not part of the sources at hand. A compound block yields its statement array: the
  range from \<^verbatim>\<open>Body\<close> to \<^verbatim>\<open>Body + NumStmts\<close>.
\<close>

definition CompoundStmt_children :: "'s CompoundStmt \<Rightarrow> 's list" where
  "CompoundStmt_children n = (case Body n of None \<Rightarrow> [] | Some b \<Rightarrow> take (NumStmts n) b)"

text \<open>
  Claim C6, as amended. For every sequence \<open>S\<close> of statement references whose
  length fits the bit-field (\<open>length S < 2 ^ w\<close>), the empty sequence included, the
  constructor builds a node whose children are \<open>S\<close>, in order; for the empty
  sequence \<^verbatim>\<open>Body\<close> is the null pointer and the children are the empty sequence.
  Every longer sequence is rejected by the assertion of the constructor.
\<close>

theorem CompoundStmt_children_roundtrip:
  "(length S < 2 ^ w \<longrightarrow>
      (\<exists>n. CompoundStmt_ctor w S LB RB = Inr n \<and>
           CompoundStmt_children n = S \<and>
           Body n = (if S = [] then None else Some S))) \<and>
   (2 ^ w \<le> length S \<longrightarrow>
      CompoundStmt_ctor w S LB RB =
        Inl (assertion ''NumStmts doesn't fit in bits of CompoundStmtBits.NumStmts!''))"
proof (intro conjI impI)
  assume "length S < 2 ^ w"
  then show "\<exists>n. CompoundStmt_ctor w S LB RB = Inr n \<and>
           CompoundStmt_children n = S \<and>
           Body n = (if S = [] then None else Some S)"
    by (simp add: CompoundStmt_ctor_def CompoundStmt_children_def Let_def)
next
  assume a: "2 ^ w \<le> length S"
  have "length S mod 2 ^ w < 2 ^ w" by simp
  with a have "length S mod 2 ^ w \<noteq> length S" by linarith
  then show "CompoundStmt_ctor w S LB RB =
        Inl (assertion ''NumStmts doesn't fit in bits of CompoundStmtBits.NumStmts!'')"
    by (simp add: CompoundStmt_ctor_def Let_def)
qed

text \<open>
  The witness: a sequence of two statements, the empty sequence, and a sequence of
  \<open>2 ^ 24 + 1\<close> statements, with a bit-field of 24 bits.
\<close>

theorem CompoundStmt_children_roundtrip_witness:
  "(\<exists>n. CompoundStmt_ctor 24 [''a'', ''b''] 1 9 = Inr n \<and>
        CompoundStmt_children n = [''a'', ''b''] \<and> Body n = Some [''a'', ''b'']) \<and>
   (\<exists>n. CompoundStmt_ctor 24 ([] :: string list) 1 2 = Inr n \<and>
        CompoundStmt_children n = [] \<and> Body n = None) \<and>
   CompoundStmt_ctor 24 (replicate (2 ^ 24 + 1) ''s'') 1 2 =
     Inl (assertion ''NumStmts doesn't fit in bits of CompoundStmtBits.NumStmts!'')"
  using CompoundStmt_children_roundtrip [of "[''a'', ''b'']" 24 1 9]
    CompoundStmt_children_roundtrip [of "[] :: string list" 24 1 2]
    CompoundStmt_children_roundtrip [of "replicate (2 ^ 24 + 1) ''s''" 24 1 2]
  by simp

text \<open>
  The claim as it was stated, for every sequence, fails on a sequence of \<open>2 ^ 24\<close>
  statements with a bit-field of 24 bits: the field holds 0, and the assertion of
  the constructor fails.
\<close>

theorem CompoundStmt_ctor_overflow_counterexample:
  "CompoundStmt_ctor 24 (replicate (2 ^ 24) ''s'') 0 0 =
     Inl (assertion ''NumStmts doesn't fit in bits of CompoundStmtBits.NumStmts!'')"
  by (simp add: CompoundStmt_ctor_def Let_def)

subsection \<open>CapturedStmt\<close>

text \<open>
  The trailing storage of a captured statement: \<^verbatim>\<open>NumCaptures + 1\<close> slots of
  \<^verbatim>\<open>Stmt *\<close> (\<^verbatim>\<open>getStoredStmts()\<close>), then the capture descriptors
  (\<^verbatim>\<open>getStoredCaptures()\<close>). Pointers that the constructor asserts to be non-null
  are options.
\<close>

record ('s, 'c, 'cd, 'rd, 'k) CapturedStmt =
  NumCaptures :: nat
  TheCapturedDecl :: "'cd option"
  RegionKind :: 'k
  TheRecordDecl :: "'rd option"
  StoredStmts :: "'s option list"
  StoredCaptures :: "'c list"

text \<open>
  The constructor. \<^verbatim>\<open>CaptureInits[I]\<close> is \<^verbatim>\<open>ArrayRef::operator[]\<close>, which asserts
  that the index is in range.
\<close>

definition CapturedStmt_ctor ::
  "'s option \<Rightarrow> 'k \<Rightarrow> 'c list \<Rightarrow> 's option list \<Rightarrow> 'cd option \<Rightarrow> 'rd option \<Rightarrow>
   fatal + ('s, 'c, 'cd, 'rd, 'k) CapturedStmt" where
  "CapturedStmt_ctor S Kind Captures CaptureInits CD RD =
     (if S = None then Inl (assertion ''null captured statement'')
      else if CD = None
      then Inl (assertion ''null captured declaration for captured statement'')
      else if RD = None
      then Inl (assertion ''null record declaration for captured statement'')
      else if length CaptureInits < length Captures
      then Inl (assertion ''Invalid index!'')
      else Inr \<lparr>NumCaptures = length Captures,
                TheCapturedDecl = CD,
                RegionKind = Kind,
                TheRecordDecl = RD,
                StoredStmts = take (length Captures) CaptureInits @ [S],
                StoredCaptures = Captures\<rparr>)"

definition CapturedStmt_Create ::
  "'s option \<Rightarrow> 'k \<Rightarrow> 'c list \<Rightarrow> 's option list \<Rightarrow> 'cd option \<Rightarrow> 'rd option \<Rightarrow>
   fatal + ('s, 'c, 'cd, 'rd, 'k) CapturedStmt" where
  "CapturedStmt_Create S Kind Captures CaptureInits CD RD =
     (if length CaptureInits \<noteq> length Captures
      then Inl (assertion ''wrong number of arguments'')
      else CapturedStmt_ctor S Kind Captures CaptureInits CD RD)"

text \<open>
  \<^verbatim>\<open>CapturedStmt::children\<close>: the range from \<^verbatim>\<open>getStoredStmts()\<close> to
  \<^verbatim>\<open>getStoredStmts() + NumCaptures\<close>.
\<close>

definition CapturedStmt_children :: "('s, 'c, 'cd, 'rd, 'k) CapturedStmt \<Rightarrow> 's option list" where
  "CapturedStmt_children n = take (NumCaptures n) (StoredStmts n)"

text \<open>
  A registry with the captured statement as its one concrete class, for the example.
\<close>

definition captured_inc ::
  "((string, string \<times> bool, string, string, unit) CapturedStmt, string option) StmtNodes_entry list" where
  "captured_inc =
     [ABSTRACT_STMT ''Expr'',
      STMT \<lparr>class_name = ''CapturedStmt'', class_sizeof = 40,
            class_children = CapturedStmt_children,
            class_getLocStart = (\<lambda>n. 0), class_getLocEnd = (\<lambda>n. 0),
            class_getSourceRange = None\<rparr>]"

text \<open>
  Claim C10. For every captured statement that the factory builds, with \<open>N\<close>
  captures, the children are the \<open>N\<close> capture initialisers in order: the stored
  statements are the initialisers followed by the captured statement, the children
  are the first \<open>N\<close> of them, and the capture descriptors are stored apart. The
  generic \<^verbatim>\<open>Stmt::children\<close> returns the same for the tag of a class whose
  \<^verbatim>\<open>children\<close> is \<^verbatim>\<open>CapturedStmt::children\<close>.
\<close>

theorem CapturedStmt_children_inits:
  assumes "CapturedStmt_Create S Kind Captures CaptureInits CD RD = Inr n"
  shows "CapturedStmt_children n = CaptureInits \<and>
         length (CapturedStmt_children n) = length Captures \<and>
         NumCaptures n = length Captures \<and>
         StoredStmts n = CaptureInits @ [S] \<and>
         StoredCaptures n = Captures \<and>
         S \<noteq> None \<and>
         (1 \<le> k \<and> k \<le> lastStmtConstant inc \<and>
          class_children (concrete_classes inc ! (k - 1)) = CapturedStmt_children \<longrightarrow>
          Stmt_children inc k n = Inr CaptureInits)"
proof -
  from assms have a: "CapturedStmt_children n = CaptureInits \<and>
         length (CapturedStmt_children n) = length Captures \<and>
         NumCaptures n = length Captures \<and>
         StoredStmts n = CaptureInits @ [S] \<and>
         StoredCaptures n = Captures \<and>
         S \<noteq> None"
    by (auto simp: CapturedStmt_Create_def CapturedStmt_ctor_def CapturedStmt_children_def
        split: if_splits)
  then have "Stmt_children inc k n = Inr CaptureInits"
    if "1 \<le> k \<and> k \<le> lastStmtConstant inc \<and>
          class_children (concrete_classes inc ! (k - 1)) = CapturedStmt_children"
    using that by (simp add: Stmt_children_def map_of_switch_cases NoStmtClass_def)
  with a show ?thesis by blast
qed

text \<open>
  The witness: two captures, with their initialisers, enumerated through the
  generic dispatch.
\<close>

theorem CapturedStmt_children_inits_witness:
  "CapturedStmt_Create (Some ''body'') () [(''x'', True), (''y'', False)]
       [Some ''init_x'', Some ''init_y''] (Some ''cd'') (Some ''rd'') =
     Inr \<lparr>NumCaptures = 2, TheCapturedDecl = Some ''cd'', RegionKind = (),
          TheRecordDecl = Some ''rd'',
          StoredStmts = [Some ''init_x'', Some ''init_y'', Some ''body''],
          StoredCaptures = [(''x'', True), (''y'', False)]\<rparr> \<and>
   Stmt_children captured_inc 1
     \<lparr>NumCaptures = 2, TheCapturedDecl = Some ''cd'', RegionKind = (),
      TheRecordDecl = Some ''rd'',
      StoredStmts = [Some ''init_x'', Some ''init_y'', Some ''body''],
      StoredCaptures = [(''x'', True), (''y'', False)]\<rparr> =
     Inr [Some ''init_x'', Some ''init_y'']"
proof -
  have c: "CapturedStmt_Create (Some ''body'') () [(''x'', True), (''y'', False)]
       [Some ''init_x'', Some ''init_y''] (Some ''cd'') (Some ''rd'') =
     Inr \<lparr>NumCaptures = 2, TheCapturedDecl = Some ''cd'', RegionKind = (),
          TheRecordDecl = Some ''rd'',
          StoredStmts = [Some ''init_x'', Some ''init_y'', Some ''body''],
          StoredCaptures = [(''x'', True), (''y'', False)]\<rparr>"
    by (simp add: CapturedStmt_Create_def CapturedStmt_ctor_def)
  have k: "1 \<le> (1 :: nat) \<and> 1 \<le> lastStmtConstant captured_inc \<and>
      class_children (concrete_classes captured_inc ! (1 - 1)) = CapturedStmt_children"
    by (simp add: captured_inc_def lastStmtConstant_def)
  from CapturedStmt_children_inits [OF c, of 1 captured_inc] k c show ?thesis by simp
qed

subsection \<open>Condition variables of if, for, switch and while\<close>

text \<open>
  Modelled from the spec: \<^verbatim>\<open>DeclStmt\<close>, \<^verbatim>\<open>DeclGroupRef\<close> and the casts are declared
  in headers that are not part of the sources at hand. The wrapper is a
  single-declaration statement: a declaration group that holds one declaration,
  with a start and an end location. \<^verbatim>\<open>getSingleDecl\<close> asserts that the group is a
  single declaration, and \<^verbatim>\<open>cast<T>\<close> asserts that its argument is a \<^verbatim>\<open>T\<close>.
\<close>

datatype ('v, 'o) Decl = VarDecl 'v | OtherDecl 'o

datatype 'd DeclGroupRef = SingleDecl 'd | DeclGroup "'d list"

record 'd DeclStmt =
  DG :: "'d DeclGroupRef"
  StartLoc :: SourceLocation
  EndLoc :: SourceLocation

datatype ('d, 'x) Stmt = DeclStmtNode "'d DeclStmt" | OtherStmt 'x

definition getSingleDecl :: "'d DeclStmt \<Rightarrow> fatal + 'd" where
  "getSingleDecl DS =
     (case DG DS of
        SingleDecl D \<Rightarrow> Inr D
      | DeclGroup _ \<Rightarrow> Inl (assertion ''Isn't a declgroup''))"

definition cast_DeclStmt :: "('d, 'x) Stmt \<Rightarrow> fatal + 'd DeclStmt" where
  "cast_DeclStmt s =
     (case s of
        DeclStmtNode DS \<Rightarrow> Inr DS
      | OtherStmt _ \<Rightarrow> Inl (assertion ''cast<Ty>() argument of incompatible type!''))"

definition cast_VarDecl :: "('v, 'o) Decl \<Rightarrow> fatal + 'v" where
  "cast_VarDecl D =
     (case D of
        VarDecl V \<Rightarrow> Inr V
      | OtherDecl _ \<Rightarrow> Inl (assertion ''cast<Ty>() argument of incompatible type!''))"

text \<open>
  The body shared by the four \<^verbatim>\<open>getConditionVariable\<close> functions, from the slot on:
  \<^verbatim>\<open>if (!Slot) return 0; DeclStmt *DS = cast<DeclStmt>(Slot);
  return cast<VarDecl>(DS->getSingleDecl());\<close>
\<close>

definition unwrap_condition_variable ::
  "(('v, 'o) Decl, 'x) Stmt option \<Rightarrow> fatal + 'v option" where
  "unwrap_condition_variable Slot =
     (case Slot of
        None \<Rightarrow> Inr None
      | Some s \<Rightarrow>
          (case cast_DeclStmt s of
             Inl f \<Rightarrow> Inl f
           | Inr DS \<Rightarrow>
               (case getSingleDecl DS of
                  Inl f \<Rightarrow> Inl f
                | Inr D \<Rightarrow>
                    (case cast_VarDecl D of
                       Inl f \<Rightarrow> Inl f
                     | Inr V \<Rightarrow> Inr (Some V)))))"

text \<open>
  The value the four \<^verbatim>\<open>setConditionVariable\<close> functions store in the slot:
  \<^verbatim>\<open>if (!V) Slot = 0; else Slot = new (C) DeclStmt(DeclGroupRef(V),
  VarRange.getBegin(), VarRange.getEnd())\<close> with \<^verbatim>\<open>VarRange = V->getSourceRange()\<close>.
  The source range of a variable declaration is a parameter (\<open>getSourceRange\<close>).
\<close>

definition wrap_condition_variable ::
  "('v \<Rightarrow> SourceLocation \<times> SourceLocation) \<Rightarrow> 'v option \<Rightarrow>
   (('v, 'o) Decl, 'x) Stmt option" where
  "wrap_condition_variable getSourceRange V =
     (case V of
        None \<Rightarrow> None
      | Some v \<Rightarrow>
          (let VarRange = getSourceRange v in
           Some (DeclStmtNode
             \<lparr>DG = SingleDecl (VarDecl v), StartLoc = fst VarRange, EndLoc = snd VarRange\<rparr>)))"

text \<open>
  The four nodes. \<^verbatim>\<open>SubExprs\<close> is an array of statement pointers, indexed by the
  enumerators of the class (declared in Stmt.h): a function from the index.
\<close>

datatype IfStmt_index = IfStmt_VAR | IfStmt_COND | IfStmt_THEN | IfStmt_ELSE

datatype ForStmt_index = ForStmt_INIT | ForStmt_CONDVAR | ForStmt_COND | ForStmt_INC | ForStmt_BODY

datatype SwitchStmt_index = SwitchStmt_VAR | SwitchStmt_COND | SwitchStmt_BODY

datatype WhileStmt_index = WhileStmt_VAR | WhileStmt_COND | WhileStmt_BODY

record ('v, 'o, 'x) IfStmt =
  IfLoc :: SourceLocation
  ElseLoc :: SourceLocation
  IfStmt_SubExprs :: "IfStmt_index \<Rightarrow> (('v, 'o) Decl, 'x) Stmt option"

record ('v, 'o, 'x) ForStmt =
  ForLoc :: SourceLocation
  LParenLoc :: SourceLocation
  RParenLoc :: SourceLocation
  ForStmt_SubExprs :: "ForStmt_index \<Rightarrow> (('v, 'o) Decl, 'x) Stmt option"

record ('v, 'o, 'x, 'c) SwitchStmt =
  FirstCase :: "'c option"
  AllEnumCasesCovered :: bool
  SwitchStmt_SubExprs :: "SwitchStmt_index \<Rightarrow> (('v, 'o) Decl, 'x) Stmt option"

record ('v, 'o, 'x) WhileStmt =
  WhileLoc :: SourceLocation
  WhileStmt_SubExprs :: "WhileStmt_index \<Rightarrow> (('v, 'o) Decl, 'x) Stmt option"

definition IfStmt_getConditionVariable :: "('v, 'o, 'x) IfStmt \<Rightarrow> fatal + 'v option" where
  "IfStmt_getConditionVariable n = unwrap_condition_variable (IfStmt_SubExprs n IfStmt_VAR)"

definition IfStmt_setConditionVariable ::
  "('v \<Rightarrow> SourceLocation \<times> SourceLocation) \<Rightarrow> ('v, 'o, 'x) IfStmt \<Rightarrow> 'v option \<Rightarrow>
   ('v, 'o, 'x) IfStmt" where
  "IfStmt_setConditionVariable getSourceRange n V =
     n\<lparr>IfStmt_SubExprs :=
         (IfStmt_SubExprs n)(IfStmt_VAR := wrap_condition_variable getSourceRange V)\<rparr>"

definition ForStmt_getConditionVariable :: "('v, 'o, 'x) ForStmt \<Rightarrow> fatal + 'v option" where
  "ForStmt_getConditionVariable n =
     unwrap_condition_variable (ForStmt_SubExprs n ForStmt_CONDVAR)"

definition ForStmt_setConditionVariable ::
  "('v \<Rightarrow> SourceLocation \<times> SourceLocation) \<Rightarrow> ('v, 'o, 'x) ForStmt \<Rightarrow> 'v option \<Rightarrow>
   ('v, 'o, 'x) ForStmt" where
  "ForStmt_setConditionVariable getSourceRange n V =
     n\<lparr>ForStmt_SubExprs :=
         (ForStmt_SubExprs n)(ForStmt_CONDVAR := wrap_condition_variable getSourceRange V)\<rparr>"

definition SwitchStmt_getConditionVariable ::
  "('v, 'o, 'x, 'c) SwitchStmt \<Rightarrow> fatal + 'v option" where
  "SwitchStmt_getConditionVariable n =
     unwrap_condition_variable (SwitchStmt_SubExprs n SwitchStmt_VAR)"

definition SwitchStmt_setConditionVariable ::
  "('v \<Rightarrow> SourceLocation \<times> SourceLocation) \<Rightarrow> ('v, 'o, 'x, 'c) SwitchStmt \<Rightarrow> 'v option \<Rightarrow>
   ('v, 'o, 'x, 'c) SwitchStmt" where
  "SwitchStmt_setConditionVariable getSourceRange n V =
     n\<lparr>SwitchStmt_SubExprs :=
         (SwitchStmt_SubExprs n)(SwitchStmt_VAR := wrap_condition_variable getSourceRange V)\<rparr>"

definition WhileStmt_getConditionVariable :: "('v, 'o, 'x) WhileStmt \<Rightarrow> fatal + 'v option" where
  "WhileStmt_getConditionVariable n =
     unwrap_condition_variable (WhileStmt_SubExprs n WhileStmt_VAR)"

definition WhileStmt_setConditionVariable ::
  "('v \<Rightarrow> SourceLocation \<times> SourceLocation) \<Rightarrow> ('v, 'o, 'x) WhileStmt \<Rightarrow> 'v option \<Rightarrow>
   ('v, 'o, 'x) WhileStmt" where
  "WhileStmt_setConditionVariable getSourceRange n V =
     n\<lparr>WhileStmt_SubExprs :=
         (WhileStmt_SubExprs n)(WhileStmt_VAR := wrap_condition_variable getSourceRange V)\<rparr>"

lemma unwrap_wrap_condition_variable:
  "unwrap_condition_variable (wrap_condition_variable R V) = Inr V"
  by (cases V)
    (simp_all add: unwrap_condition_variable_def wrap_condition_variable_def
      cast_DeclStmt_def getSingleDecl_def cast_VarDecl_def Let_def)

text \<open>
  Claim C7. For each of \<^verbatim>\<open>IfStmt\<close>, \<^verbatim>\<open>WhileStmt\<close>, \<^verbatim>\<open>ForStmt\<close> and
  \<^verbatim>\<open>SwitchStmt\<close>, and every variable declaration \<open>V\<close>: after setting the condition
  variable to \<open>V\<close>, the slot holds a single-declaration statement of \<open>V\<close> with the
  source range of \<open>V\<close>, and getting the condition variable returns \<open>V\<close>; after
  setting it to nothing, the slot is null and getting it returns nothing.
\<close>

theorem condition_variable_roundtrip:
  "IfStmt_getConditionVariable (IfStmt_setConditionVariable R i (Some V)) = Inr (Some V) \<and>
   IfStmt_getConditionVariable (IfStmt_setConditionVariable R i None) = Inr None \<and>
   IfStmt_SubExprs (IfStmt_setConditionVariable R i (Some V)) IfStmt_VAR =
     Some (DeclStmtNode \<lparr>DG = SingleDecl (VarDecl V), StartLoc = fst (R V), EndLoc = snd (R V)\<rparr>) \<and>
   IfStmt_SubExprs (IfStmt_setConditionVariable R i None) IfStmt_VAR = None \<and>
   WhileStmt_getConditionVariable (WhileStmt_setConditionVariable R w (Some V)) = Inr (Some V) \<and>
   WhileStmt_getConditionVariable (WhileStmt_setConditionVariable R w None) = Inr None \<and>
   WhileStmt_SubExprs (WhileStmt_setConditionVariable R w (Some V)) WhileStmt_VAR =
     Some (DeclStmtNode \<lparr>DG = SingleDecl (VarDecl V), StartLoc = fst (R V), EndLoc = snd (R V)\<rparr>) \<and>
   WhileStmt_SubExprs (WhileStmt_setConditionVariable R w None) WhileStmt_VAR = None \<and>
   ForStmt_getConditionVariable (ForStmt_setConditionVariable R f (Some V)) = Inr (Some V) \<and>
   ForStmt_getConditionVariable (ForStmt_setConditionVariable R f None) = Inr None \<and>
   ForStmt_SubExprs (ForStmt_setConditionVariable R f (Some V)) ForStmt_CONDVAR =
     Some (DeclStmtNode \<lparr>DG = SingleDecl (VarDecl V), StartLoc = fst (R V), EndLoc = snd (R V)\<rparr>) \<and>
   ForStmt_SubExprs (ForStmt_setConditionVariable R f None) ForStmt_CONDVAR = None \<and>
   SwitchStmt_getConditionVariable (SwitchStmt_setConditionVariable R s (Some V)) = Inr (Some V) \<and>
   SwitchStmt_getConditionVariable (SwitchStmt_setConditionVariable R s None) = Inr None \<and>
   SwitchStmt_SubExprs (SwitchStmt_setConditionVariable R s (Some V)) SwitchStmt_VAR =
     Some (DeclStmtNode \<lparr>DG = SingleDecl (VarDecl V), StartLoc = fst (R V), EndLoc = snd (R V)\<rparr>) \<and>
   SwitchStmt_SubExprs (SwitchStmt_setConditionVariable R s None) SwitchStmt_VAR = None"
  by (simp add: IfStmt_getConditionVariable_def IfStmt_setConditionVariable_def
      WhileStmt_getConditionVariable_def WhileStmt_setConditionVariable_def
      ForStmt_getConditionVariable_def ForStmt_setConditionVariable_def
      SwitchStmt_getConditionVariable_def SwitchStmt_setConditionVariable_def
      unwrap_wrap_condition_variable)
    (simp add: wrap_condition_variable_def Let_def)

subsection \<open>OpenMP clauses with a list of variables\<close>

text \<open>
  A clause with a variable list is a header followed, in the same allocation, by
  slots of \<^verbatim>\<open>Expr *\<close>: the variable list first, then further arrays. The model keeps
  the number of variables and the slots behind the header (\<open>Trailing\<close>); a pointer
  into them is the number of slots before it. A null \<^verbatim>\<open>Expr *\<close> is \<open>None\<close>. The
  locations of a clause, and the operator of a reduction clause, play no part in
  what follows and are left out.
\<close>

record 'x OMPVarListClause =
  NumVars :: nat
  Trailing :: "'x option list"

text \<open>
  An \<^verbatim>\<open>ArrayRef\<close> into the slots: where it begins and how many elements it has.
\<close>

type_synonym ArrayRef = "nat \<times> nat"

definition ArrayRef_end :: "ArrayRef \<Rightarrow> nat" where
  "ArrayRef_end r = fst r + snd r"

definition ArrayRef_elems :: "'x OMPVarListClause \<Rightarrow> ArrayRef \<Rightarrow> 'x option list" where
  "ArrayRef_elems c r = take (snd r) (drop (fst r) (Trailing c))"

text \<open>
  \<^verbatim>\<open>std::copy(first, last, dest)\<close> into the slots: the elements of the source
  replace the slots from \<open>dest\<close> on. The setters below call it only after their
  assertion, and on a clause whose slots were allocated by its factory the
  destination lies within the slots.
\<close>

definition std_copy :: "'a list \<Rightarrow> nat \<Rightarrow> 'a list \<Rightarrow> 'a list" where
  "std_copy Src dest slots = take dest slots @ Src @ drop (dest + length Src) slots"

text \<open>
  A setter either ends the program in a failed assertion or returns; in both cases
  the clause is in some state at that point. The result of a setter is the failure,
  if any, together with that state. \<open>and_then\<close> is the next statement of a factory:
  it runs only when the one before has returned.
\<close>

definition and_then ::
  "fatal option \<times> 'c \<Rightarrow> ('c \<Rightarrow> fatal option \<times> 'c) \<Rightarrow> fatal option \<times> 'c" where
  "and_then r f = (case r of (None, c) \<Rightarrow> f c | (Some e, c) \<Rightarrow> (Some e, c))"

text \<open>What a factory returns: the clause, unless an assertion has failed.\<close>

definition returned :: "fatal option \<times> 'c \<Rightarrow> fatal + 'c" where
  "returned r = (case r of (None, c) \<Rightarrow> Inr c | (Some e, c) \<Rightarrow> Inl e)"

text \<open>
  Modelled from the spec: the class template \<^verbatim>\<open>OMPVarList\<close> and the accessors of
  the clause classes are declared in a header that is not part of the sources at
  hand. The variable list has \<^verbatim>\<open>NumVars\<close> elements and begins the slots; every
  parallel array has as many elements as the variable list and begins where the
  array before it ends ("segment boundaries are computed by address arithmetic
  from the variable-list end"). \<^verbatim>\<open>setVars\<close> asserts the length as the setters of
  the source do.
\<close>

definition varlist_size :: "'x OMPVarListClause \<Rightarrow> nat" where
  "varlist_size c = NumVars c"

definition numberOfVariables :: "'x OMPVarListClause \<Rightarrow> nat" where
  "numberOfVariables c = NumVars c"

definition varlist_begin :: "'x OMPVarListClause \<Rightarrow> nat" where
  "varlist_begin c = 0"

definition varlist_end :: "'x OMPVarListClause \<Rightarrow> nat" where
  "varlist_end c = varlist_begin c + NumVars c"

definition setVars ::
  "'x OMPVarListClause \<Rightarrow> 'x option list \<Rightarrow> fatal option \<times> 'x OMPVarListClause" where
  "setVars c VL =
     (if length VL \<noteq> NumVars c
      then (Some (assertion ''Number of variables is not the same as the preallocated buffer''), c)
      else (None, c\<lparr>Trailing := std_copy VL (varlist_begin c) (Trailing c)\<rparr>))"

definition OMPPrivateClause_getDefaultInits :: "'x OMPVarListClause \<Rightarrow> ArrayRef" where
  "OMPPrivateClause_getDefaultInits c = (varlist_end c, varlist_size c)"

definition OMPFirstPrivateClause_getPseudoVars :: "'x OMPVarListClause \<Rightarrow> ArrayRef" where
  "OMPFirstPrivateClause_getPseudoVars c = (varlist_end c, varlist_size c)"

definition OMPFirstPrivateClause_getInits :: "'x OMPVarListClause \<Rightarrow> ArrayRef" where
  "OMPFirstPrivateClause_getInits c = (ArrayRef_end (OMPFirstPrivateClause_getPseudoVars c), varlist_size c)"

definition OMPLastPrivateClause_getPseudoVars1 :: "'x OMPVarListClause \<Rightarrow> ArrayRef" where
  "OMPLastPrivateClause_getPseudoVars1 c = (varlist_end c, varlist_size c)"

definition OMPLastPrivateClause_getPseudoVars2 :: "'x OMPVarListClause \<Rightarrow> ArrayRef" where
  "OMPLastPrivateClause_getPseudoVars2 c = (ArrayRef_end (OMPLastPrivateClause_getPseudoVars1 c), varlist_size c)"

definition OMPLastPrivateClause_getDefaultInits :: "'x OMPVarListClause \<Rightarrow> ArrayRef" where
  "OMPLastPrivateClause_getDefaultInits c = (ArrayRef_end (OMPLastPrivateClause_getPseudoVars2 c), varlist_size c)"

definition OMPLastPrivateClause_getAssignments :: "'x OMPVarListClause \<Rightarrow> ArrayRef" where
  "OMPLastPrivateClause_getAssignments c = (ArrayRef_end (OMPLastPrivateClause_getDefaultInits c), varlist_size c)"

definition OMPCopyinClause_getPseudoVars1 :: "'x OMPVarListClause \<Rightarrow> ArrayRef" where
  "OMPCopyinClause_getPseudoVars1 c = (varlist_end c, varlist_size c)"

definition OMPCopyinClause_getPseudoVars2 :: "'x OMPVarListClause \<Rightarrow> ArrayRef" where
  "OMPCopyinClause_getPseudoVars2 c = (ArrayRef_end (OMPCopyinClause_getPseudoVars1 c), varlist_size c)"

definition OMPCopyinClause_getAssignments :: "'x OMPVarListClause \<Rightarrow> ArrayRef" where
  "OMPCopyinClause_getAssignments c = (ArrayRef_end (OMPCopyinClause_getPseudoVars2 c), varlist_size c)"

definition OMPCopyPrivateClause_getPseudoVars1 :: "'x OMPVarListClause \<Rightarrow> ArrayRef" where
  "OMPCopyPrivateClause_getPseudoVars1 c = (varlist_end c, varlist_size c)"

definition OMPCopyPrivateClause_getPseudoVars2 :: "'x OMPVarListClause \<Rightarrow> ArrayRef" where
  "OMPCopyPrivateClause_getPseudoVars2 c = (ArrayRef_end (OMPCopyPrivateClause_getPseudoVars1 c), varlist_size c)"

definition OMPCopyPrivateClause_getAssignments :: "'x OMPVarListClause \<Rightarrow> ArrayRef" where
  "OMPCopyPrivateClause_getAssignments c = (ArrayRef_end (OMPCopyPrivateClause_getPseudoVars2 c), varlist_size c)"

definition OMPReductionClause_getOpExprs :: "'x OMPVarListClause \<Rightarrow> ArrayRef" where
  "OMPReductionClause_getOpExprs c = (varlist_end c, varlist_size c)"

definition OMPReductionClause_getHelperParameters1st :: "'x OMPVarListClause \<Rightarrow> ArrayRef" where
  "OMPReductionClause_getHelperParameters1st c = (ArrayRef_end (OMPReductionClause_getOpExprs c), varlist_size c)"

definition OMPReductionClause_getHelperParameters2nd :: "'x OMPVarListClause \<Rightarrow> ArrayRef" where
  "OMPReductionClause_getHelperParameters2nd c = (ArrayRef_end (OMPReductionClause_getHelperParameters1st c), varlist_size c)"

definition OMPReductionClause_getDefaultInits :: "'x OMPVarListClause \<Rightarrow> ArrayRef" where
  "OMPReductionClause_getDefaultInits c = (ArrayRef_end (OMPReductionClause_getHelperParameters2nd c), varlist_size c)"

text \<open>
  The setters of lib/AST/Stmt.cpp: the assertion on the length, then the copy to
  the end of the array before.
\<close>

definition OMPPrivateClause_setDefaultInits ::
  "'x OMPVarListClause \<Rightarrow> 'x option list \<Rightarrow> fatal option \<times> 'x OMPVarListClause" where
  "OMPPrivateClause_setDefaultInits c DefaultInits =
     (if length DefaultInits \<noteq> varlist_size c
      then (Some (assertion ''Number of inits is not the same as the preallocated buffer''), c)
      else (None, c\<lparr>Trailing := std_copy DefaultInits (varlist_end c) (Trailing c)\<rparr>))"

definition OMPFirstPrivateClause_setPseudoVars ::
  "'x OMPVarListClause \<Rightarrow> 'x option list \<Rightarrow> fatal option \<times> 'x OMPVarListClause" where
  "OMPFirstPrivateClause_setPseudoVars c PseudoVars =
     (if length PseudoVars \<noteq> varlist_size c
      then (Some (assertion ''Number of vars is not the same as the preallocated buffer''), c)
      else (None, c\<lparr>Trailing := std_copy PseudoVars (varlist_end c) (Trailing c)\<rparr>))"

definition OMPFirstPrivateClause_setInits ::
  "'x OMPVarListClause \<Rightarrow> 'x option list \<Rightarrow> fatal option \<times> 'x OMPVarListClause" where
  "OMPFirstPrivateClause_setInits c Inits =
     (if length Inits \<noteq> varlist_size c
      then (Some (assertion ''Number of inits is not the same as the preallocated buffer''), c)
      else (None, c\<lparr>Trailing := std_copy Inits (ArrayRef_end (OMPFirstPrivateClause_getPseudoVars c)) (Trailing c)\<rparr>))"

definition OMPLastPrivateClause_setPseudoVars1 ::
  "'x OMPVarListClause \<Rightarrow> 'x option list \<Rightarrow> fatal option \<times> 'x OMPVarListClause" where
  "OMPLastPrivateClause_setPseudoVars1 c PseudoVars =
     (if length PseudoVars \<noteq> varlist_size c
      then (Some (assertion ''Number of vars is not the same as the preallocated buffer''), c)
      else (None, c\<lparr>Trailing := std_copy PseudoVars (varlist_end c) (Trailing c)\<rparr>))"

definition OMPLastPrivateClause_setPseudoVars2 ::
  "'x OMPVarListClause \<Rightarrow> 'x option list \<Rightarrow> fatal option \<times> 'x OMPVarListClause" where
  "OMPLastPrivateClause_setPseudoVars2 c PseudoVars =
     (if length PseudoVars \<noteq> varlist_size c
      then (Some (assertion ''Number of vars is not the same as the preallocated buffer''), c)
      else (None, c\<lparr>Trailing := std_copy PseudoVars (ArrayRef_end (OMPLastPrivateClause_getPseudoVars1 c)) (Trailing c)\<rparr>))"

definition OMPLastPrivateClause_setDefaultInits ::
  "'x OMPVarListClause \<Rightarrow> 'x option list \<Rightarrow> fatal option \<times> 'x OMPVarListClause" where
  "OMPLastPrivateClause_setDefaultInits c DefaultInits =
     (if length DefaultInits \<noteq> varlist_size c
      then (Some (assertion ''Number of inits is not the same as the preallocated buffer''), c)
      else (None, c\<lparr>Trailing := std_copy DefaultInits (ArrayRef_end (OMPLastPrivateClause_getPseudoVars2 c)) (Trailing c)\<rparr>))"

definition OMPLastPrivateClause_setAssignments ::
  "'x OMPVarListClause \<Rightarrow> 'x option list \<Rightarrow> fatal option \<times> 'x OMPVarListClause" where
  "OMPLastPrivateClause_setAssignments c Assignments =
     (if length Assignments \<noteq> varlist_size c
      then (Some (assertion ''Number of inits is not the same as the preallocated buffer''), c)
      else (None, c\<lparr>Trailing := std_copy Assignments (ArrayRef_end (OMPLastPrivateClause_getDefaultInits c)) (Trailing c)\<rparr>))"

definition OMPCopyinClause_setPseudoVars1 ::
  "'x OMPVarListClause \<Rightarrow> 'x option list \<Rightarrow> fatal option \<times> 'x OMPVarListClause" where
  "OMPCopyinClause_setPseudoVars1 c PseudoVars =
     (if length PseudoVars \<noteq> varlist_size c
      then (Some (assertion ''Number of vars is not the same as the preallocated buffer''), c)
      else (None, c\<lparr>Trailing := std_copy PseudoVars (varlist_end c) (Trailing c)\<rparr>))"

definition OMPCopyinClause_setPseudoVars2 ::
  "'x OMPVarListClause \<Rightarrow> 'x option list \<Rightarrow> fatal option \<times> 'x OMPVarListClause" where
  "OMPCopyinClause_setPseudoVars2 c PseudoVars =
     (if length PseudoVars \<noteq> varlist_size c
      then (Some (assertion ''Number of vars is not the same as the preallocated buffer''), c)
      else (None, c\<lparr>Trailing := std_copy PseudoVars (ArrayRef_end (OMPCopyinClause_getPseudoVars1 c)) (Trailing c)\<rparr>))"

definition OMPCopyinClause_setAssignments ::
  "'x OMPVarListClause \<Rightarrow> 'x option list \<Rightarrow> fatal option \<times> 'x OMPVarListClause" where
  "OMPCopyinClause_setAssignments c Assignments =
     (if length Assignments \<noteq> varlist_size c
      then (Some (assertion ''Number of inits is not the same as the preallocated buffer''), c)
      else (None, c\<lparr>Trailing := std_copy Assignments (ArrayRef_end (OMPCopyinClause_getPseudoVars2 c)) (Trailing c)\<rparr>))"

definition OMPCopyPrivateClause_setPseudoVars1 ::
  "'x OMPVarListClause \<Rightarrow> 'x option list \<Rightarrow> fatal option \<times> 'x OMPVarListClause" where
  "OMPCopyPrivateClause_setPseudoVars1 c PseudoVars =
     (if length PseudoVars \<noteq> varlist_size c
      then (Some (assertion ''Number of vars is not the same as the preallocated buffer''), c)
      else (None, c\<lparr>Trailing := std_copy PseudoVars (varlist_end c) (Trailing c)\<rparr>))"

definition OMPCopyPrivateClause_setPseudoVars2 ::
  "'x OMPVarListClause \<Rightarrow> 'x option list \<Rightarrow> fatal option \<times> 'x OMPVarListClause" where
  "OMPCopyPrivateClause_setPseudoVars2 c PseudoVars =
     (if length PseudoVars \<noteq> varlist_size c
      then (Some (assertion ''Number of vars is not the same as the preallocated buffer''), c)
      else (None, c\<lparr>Trailing := std_copy PseudoVars (ArrayRef_end (OMPCopyPrivateClause_getPseudoVars1 c)) (Trailing c)\<rparr>))"

definition OMPCopyPrivateClause_setAssignments ::
  "'x OMPVarListClause \<Rightarrow> 'x option list \<Rightarrow> fatal option \<times> 'x OMPVarListClause" where
  "OMPCopyPrivateClause_setAssignments c Assignments =
     (if length Assignments \<noteq> varlist_size c
      then (Some (assertion ''Number of inits is not the same as the preallocated buffer''), c)
      else (None, c\<lparr>Trailing := std_copy Assignments (ArrayRef_end (OMPCopyPrivateClause_getPseudoVars2 c)) (Trailing c)\<rparr>))"

definition OMPReductionClause_setOpExprs ::
  "'x OMPVarListClause \<Rightarrow> 'x option list \<Rightarrow> fatal option \<times> 'x OMPVarListClause" where
  "OMPReductionClause_setOpExprs c OpExprs =
     (if length OpExprs \<noteq> numberOfVariables c
      then (Some (assertion ''Number of expressions is not the same as the number of variables.''), c)
      else (None, c\<lparr>Trailing := std_copy OpExprs (varlist_end c) (Trailing c)\<rparr>))"

definition OMPReductionClause_setHelperParameters1st ::
  "'x OMPVarListClause \<Rightarrow> 'x option list \<Rightarrow> fatal option \<times> 'x OMPVarListClause" where
  "OMPReductionClause_setHelperParameters1st c HelperParams =
     (if length HelperParams \<noteq> numberOfVariables c
      then (Some (assertion ''Number of expressions is not the same as the number of variables.''), c)
      else (None, c\<lparr>Trailing := std_copy HelperParams (ArrayRef_end (OMPReductionClause_getOpExprs c)) (Trailing c)\<rparr>))"

definition OMPReductionClause_setHelperParameters2nd ::
  "'x OMPVarListClause \<Rightarrow> 'x option list \<Rightarrow> fatal option \<times> 'x OMPVarListClause" where
  "OMPReductionClause_setHelperParameters2nd c HelperParams =
     (if length HelperParams \<noteq> numberOfVariables c
      then (Some (assertion ''Number of expressions is not the same as the number of variables.''), c)
      else (None, c\<lparr>Trailing := std_copy HelperParams (ArrayRef_end (OMPReductionClause_getHelperParameters1st c)) (Trailing c)\<rparr>))"

definition OMPReductionClause_setDefaultInits ::
  "'x OMPVarListClause \<Rightarrow> 'x option list \<Rightarrow> fatal option \<times> 'x OMPVarListClause" where
  "OMPReductionClause_setDefaultInits c DefaultInits =
     (if length DefaultInits \<noteq> varlist_size c
      then (Some (assertion ''Number of inits is not the same as the preallocated buffer''), c)
      else (None, c\<lparr>Trailing := std_copy DefaultInits (ArrayRef_end (OMPReductionClause_getHelperParameters2nd c)) (Trailing c)\<rparr>))"

text \<open>
  The factories. \<^verbatim>\<open>C.Allocate\<close> returns storage with arbitrary contents (\<open>mem\<close>: the
  content of each slot before it is written); the number of slots is the factor of
  \<^verbatim>\<open>sizeof(Expr *)\<close> in the size that the factory computes.
\<close>

definition OMPPrivateClause_Create ::
  "(nat \<Rightarrow> 'x option) \<Rightarrow> 'x option list \<Rightarrow> 'x option list \<Rightarrow>
   fatal + 'x OMPVarListClause" where
  "OMPPrivateClause_Create mem VL DefaultInits =
     (let Clause = \<lparr>NumVars = length VL, Trailing = map mem [0 ..< 2 * length VL]\<rparr> in
        returned (and_then (setVars Clause VL)
          (\<lambda>Clause. OMPPrivateClause_setDefaultInits Clause DefaultInits)))"

definition OMPPrivateClause_CreateEmpty :: "(nat \<Rightarrow> 'x option) \<Rightarrow> nat \<Rightarrow> 'x OMPVarListClause" where
  "OMPPrivateClause_CreateEmpty mem N = \<lparr>NumVars = N, Trailing = map mem [0 ..< 2 * N]\<rparr>"

definition OMPFirstPrivateClause_Create ::
  "(nat \<Rightarrow> 'x option) \<Rightarrow> 'x option list \<Rightarrow> 'x option list \<Rightarrow> 'x option list \<Rightarrow>
   fatal + 'x OMPVarListClause" where
  "OMPFirstPrivateClause_Create mem VL PseudoVars Inits =
     (let Clause = \<lparr>NumVars = length VL, Trailing = map mem [0 ..< 3 * length VL]\<rparr> in
        returned (and_then (and_then (setVars Clause VL)
          (\<lambda>Clause. OMPFirstPrivateClause_setPseudoVars Clause PseudoVars))
          (\<lambda>Clause. OMPFirstPrivateClause_setInits Clause Inits)))"

definition OMPFirstPrivateClause_CreateEmpty :: "(nat \<Rightarrow> 'x option) \<Rightarrow> nat \<Rightarrow> 'x OMPVarListClause" where
  "OMPFirstPrivateClause_CreateEmpty mem N = \<lparr>NumVars = N, Trailing = map mem [0 ..< 3 * N]\<rparr>"

definition OMPLastPrivateClause_Create ::
  "(nat \<Rightarrow> 'x option) \<Rightarrow> 'x option list \<Rightarrow> 'x option list \<Rightarrow> 'x option list \<Rightarrow> 'x option list \<Rightarrow>
   fatal + 'x OMPVarListClause" where
  "OMPLastPrivateClause_Create mem VL PseudoVars1 PseudoVars2 Assignments =
     (let Clause = \<lparr>NumVars = length VL, Trailing = map mem [0 ..< 5 * length VL]\<rparr> in
        returned (and_then (and_then (and_then (and_then (setVars Clause VL)
          (\<lambda>Clause. OMPLastPrivateClause_setPseudoVars1 Clause PseudoVars1))
          (\<lambda>Clause. OMPLastPrivateClause_setPseudoVars2 Clause PseudoVars2))
          (\<lambda>Clause. OMPLastPrivateClause_setAssignments Clause Assignments))
          (\<lambda>Clause. OMPLastPrivateClause_setDefaultInits Clause (replicate (length VL) None))))"

definition OMPLastPrivateClause_CreateEmpty :: "(nat \<Rightarrow> 'x option) \<Rightarrow> nat \<Rightarrow> 'x OMPVarListClause" where
  "OMPLastPrivateClause_CreateEmpty mem N = \<lparr>NumVars = N, Trailing = map mem [0 ..< 5 * N]\<rparr>"

definition OMPCopyinClause_Create ::
  "(nat \<Rightarrow> 'x option) \<Rightarrow> 'x option list \<Rightarrow> 'x option list \<Rightarrow> 'x option list \<Rightarrow> 'x option list \<Rightarrow>
   fatal + 'x OMPVarListClause" where
  "OMPCopyinClause_Create mem VL PseudoVars1 PseudoVars2 Assignments =
     (let Clause = \<lparr>NumVars = length VL, Trailing = map mem [0 ..< 4 * length VL]\<rparr> in
        returned (and_then (and_then (and_then (setVars Clause VL)
          (\<lambda>Clause. OMPCopyinClause_setPseudoVars1 Clause PseudoVars1))
          (\<lambda>Clause. OMPCopyinClause_setPseudoVars2 Clause PseudoVars2))
          (\<lambda>Clause. OMPCopyinClause_setAssignments Clause Assignments)))"

definition OMPCopyinClause_CreateEmpty :: "(nat \<Rightarrow> 'x option) \<Rightarrow> nat \<Rightarrow> 'x OMPVarListClause" where
  "OMPCopyinClause_CreateEmpty mem N = \<lparr>NumVars = N, Trailing = map mem [0 ..< 4 * N]\<rparr>"

definition OMPCopyPrivateClause_Create ::
  "(nat \<Rightarrow> 'x option) \<Rightarrow> 'x option list \<Rightarrow> 'x option list \<Rightarrow> 'x option list \<Rightarrow> 'x option list \<Rightarrow>
   fatal + 'x OMPVarListClause" where
  "OMPCopyPrivateClause_Create mem VL PseudoVars1 PseudoVars2 Assignments =
     (let Clause = \<lparr>NumVars = length VL, Trailing = map mem [0 ..< 4 * length VL]\<rparr> in
        returned (and_then (and_then (and_then (setVars Clause VL)
          (\<lambda>Clause. OMPCopyPrivateClause_setPseudoVars1 Clause PseudoVars1))
          (\<lambda>Clause. OMPCopyPrivateClause_setPseudoVars2 Clause PseudoVars2))
          (\<lambda>Clause. OMPCopyPrivateClause_setAssignments Clause Assignments)))"

definition OMPCopyPrivateClause_CreateEmpty :: "(nat \<Rightarrow> 'x option) \<Rightarrow> nat \<Rightarrow> 'x OMPVarListClause" where
  "OMPCopyPrivateClause_CreateEmpty mem N = \<lparr>NumVars = N, Trailing = map mem [0 ..< 4 * N]\<rparr>"

definition OMPReductionClause_Create ::
  "(nat \<Rightarrow> 'x option) \<Rightarrow> 'x option list \<Rightarrow> 'x option list \<Rightarrow> 'x option list \<Rightarrow> 'x option list \<Rightarrow> 'x option list \<Rightarrow>
   fatal + 'x OMPVarListClause" where
  "OMPReductionClause_Create mem VL OpExprs HelperParams1 HelperParams2 DefaultInits =
     (if length VL \<noteq> length OpExprs
      then Inl (assertion ''Number of expressions is not the same as number of variables!'')
      else (let Clause = \<lparr>NumVars = length VL, Trailing = map mem [0 ..< 5 * length VL]\<rparr> in
        returned (and_then (and_then (and_then (and_then (setVars Clause VL)
          (\<lambda>Clause. OMPReductionClause_setOpExprs Clause OpExprs))
          (\<lambda>Clause. OMPReductionClause_setHelperParameters1st Clause HelperParams1))
          (\<lambda>Clause. OMPReductionClause_setHelperParameters2nd Clause HelperParams2))
          (\<lambda>Clause. OMPReductionClause_setDefaultInits Clause DefaultInits))))"

definition OMPReductionClause_CreateEmpty :: "(nat \<Rightarrow> 'x option) \<Rightarrow> nat \<Rightarrow> 'x OMPVarListClause" where
  "OMPReductionClause_CreateEmpty mem N = \<lparr>NumVars = N, Trailing = map mem [0 ..< 5 * N]\<rparr>"

text \<open>
  What the claim says of one setter and the accessor of the array it fills, on a
  clause allocated with \<open>k\<close> arrays of \<^verbatim>\<open>NumVars\<close> slots (\<open>clause_slots\<close>): a source
  of another length ends in a failed assertion with the clause as it was; a source
  of the right length is copied, and the array then reads as the source; and the
  array has \<^verbatim>\<open>NumVars\<close> elements.
\<close>

definition clause_slots :: "nat \<Rightarrow> 'x OMPVarListClause \<Rightarrow> bool" where
  "clause_slots k c \<longleftrightarrow> length (Trailing c) = k * NumVars c"

definition parallel_array_setter ::
  "nat \<Rightarrow> ('x OMPVarListClause \<Rightarrow> 'x option list \<Rightarrow> fatal option \<times> 'x OMPVarListClause) \<Rightarrow>
   ('x OMPVarListClause \<Rightarrow> ArrayRef) \<Rightarrow> bool" where
  "parallel_array_setter k setter getter \<longleftrightarrow>
     (\<forall>c Src.
        (length Src \<noteq> NumVars c \<longrightarrow> (\<exists>msg. setter c Src = (Some (assertion msg), c))) \<and>
        (length Src = NumVars c \<longrightarrow> clause_slots k c \<longrightarrow>
           (\<exists>c'. setter c Src = (None, c') \<and> NumVars c' = NumVars c \<and> clause_slots k c' \<and>
                 ArrayRef_elems c' (getter c') = Src)) \<and>
        (clause_slots k c \<longrightarrow>
           snd (getter c) = NumVars c \<and> length (ArrayRef_elems c (getter c)) = NumVars c))"

lemma segment_within: "j < k \<Longrightarrow> j * n + n \<le> k * (n :: nat)"
proof -
  assume "j < k"
  then have "Suc j * n \<le> k * n" by (intro mult_le_mono1) simp
  then show ?thesis by simp
qed

lemma std_copy_length:
  "dest + length Src \<le> length slots \<Longrightarrow> length (std_copy Src dest slots) = length slots"
  by (simp add: std_copy_def)

lemma std_copy_read:
  "dest + length Src \<le> length slots \<Longrightarrow>
   take (length Src) (drop dest (std_copy Src dest slots)) = Src"
  by (simp add: std_copy_def)

lemma parallel_array_setterI:
  assumes s: "\<And>c Src. setter c Src =
      (if length Src \<noteq> NumVars c then (Some (assertion msg), c)
       else (None, c\<lparr>Trailing := std_copy Src (dest c) (Trailing c)\<rparr>))"
    and g: "\<And>c. getter c = (dest c, NumVars c)"
    and d: "\<And>c. dest c = j * NumVars c"
    and j: "j < k"
  shows "parallel_array_setter k setter getter"
  unfolding parallel_array_setter_def
proof (intro allI conjI impI)
  fix c :: "'a OMPVarListClause" and Src :: "'a option list"
  assume "length Src \<noteq> NumVars c"
  then show "\<exists>msg. setter c Src = (Some (assertion msg), c)" by (simp add: s)
next
  fix c :: "'a OMPVarListClause" and Src :: "'a option list"
  assume l: "length Src = NumVars c" and a: "clause_slots k c"
  let ?c = "c\<lparr>Trailing := std_copy Src (dest c) (Trailing c)\<rparr>"
  from a segment_within [OF j, of "NumVars c"] l
  have w: "dest c + length Src \<le> length (Trailing c)"
    by (simp add: clause_slots_def d)
  have dc: "dest ?c = dest c" by (simp add: d)
  have "setter c Src = (None, ?c)" using l by (simp add: s)
  moreover have "NumVars ?c = NumVars c" by simp
  moreover have "clause_slots k ?c"
    using a std_copy_length [OF w] by (simp add: clause_slots_def)
  moreover have "ArrayRef_elems ?c (getter ?c) = Src"
    using std_copy_read [OF w] l by (simp add: ArrayRef_elems_def g dc)
  ultimately show "\<exists>c'. setter c Src = (None, c') \<and> NumVars c' = NumVars c \<and>
      clause_slots k c' \<and> ArrayRef_elems c' (getter c') = Src"
    by blast
next
  fix c :: "'a OMPVarListClause" and Src :: "'a option list"
  assume "clause_slots k c"
  show "snd (getter c) = NumVars c" by (simp add: g)
next
  fix c :: "'a OMPVarListClause" and Src :: "'a option list"
  assume a: "clause_slots k c"
  from a segment_within [OF j, of "NumVars c"]
  have "dest c + NumVars c \<le> length (Trailing c)" by (simp add: clause_slots_def d)
  then show "length (ArrayRef_elems c (getter c)) = NumVars c"
    by (simp add: ArrayRef_elems_def g)
qed

lemmas varlist_defs = varlist_size_def numberOfVariables_def varlist_begin_def varlist_end_def
  ArrayRef_end_def

lemmas accessor_defs =
  OMPPrivateClause_getDefaultInits_def
  OMPFirstPrivateClause_getPseudoVars_def
  OMPFirstPrivateClause_getInits_def
  OMPLastPrivateClause_getPseudoVars1_def
  OMPLastPrivateClause_getPseudoVars2_def
  OMPLastPrivateClause_getDefaultInits_def
  OMPLastPrivateClause_getAssignments_def
  OMPCopyinClause_getPseudoVars1_def
  OMPCopyinClause_getPseudoVars2_def
  OMPCopyinClause_getAssignments_def
  OMPCopyPrivateClause_getPseudoVars1_def
  OMPCopyPrivateClause_getPseudoVars2_def
  OMPCopyPrivateClause_getAssignments_def
  OMPReductionClause_getOpExprs_def
  OMPReductionClause_getHelperParameters1st_def
  OMPReductionClause_getHelperParameters2nd_def
  OMPReductionClause_getDefaultInits_def

lemma OMPPrivateClause_setDefaultInits_ok:
  "parallel_array_setter 2 OMPPrivateClause_setDefaultInits OMPPrivateClause_getDefaultInits"
  by (rule parallel_array_setterI
      [where j = 1 and msg = "''Number of inits is not the same as the preallocated buffer''" and dest = "\<lambda>c. varlist_end c"])
    (simp_all add: OMPPrivateClause_setDefaultInits_def varlist_defs accessor_defs)

lemma OMPFirstPrivateClause_setPseudoVars_ok:
  "parallel_array_setter 3 OMPFirstPrivateClause_setPseudoVars OMPFirstPrivateClause_getPseudoVars"
  by (rule parallel_array_setterI
      [where j = 1 and msg = "''Number of vars is not the same as the preallocated buffer''" and dest = "\<lambda>c. varlist_end c"])
    (simp_all add: OMPFirstPrivateClause_setPseudoVars_def varlist_defs accessor_defs)

lemma OMPFirstPrivateClause_setInits_ok:
  "parallel_array_setter 3 OMPFirstPrivateClause_setInits OMPFirstPrivateClause_getInits"
  by (rule parallel_array_setterI
      [where j = 2 and msg = "''Number of inits is not the same as the preallocated buffer''" and dest = "\<lambda>c. ArrayRef_end (OMPFirstPrivateClause_getPseudoVars c)"])
    (simp_all add: OMPFirstPrivateClause_setInits_def varlist_defs accessor_defs)

lemma OMPLastPrivateClause_setPseudoVars1_ok:
  "parallel_array_setter 5 OMPLastPrivateClause_setPseudoVars1 OMPLastPrivateClause_getPseudoVars1"
  by (rule parallel_array_setterI
      [where j = 1 and msg = "''Number of vars is not the same as the preallocated buffer''" and dest = "\<lambda>c. varlist_end c"])
    (simp_all add: OMPLastPrivateClause_setPseudoVars1_def varlist_defs accessor_defs)

lemma OMPLastPrivateClause_setPseudoVars2_ok:
  "parallel_array_setter 5 OMPLastPrivateClause_setPseudoVars2 OMPLastPrivateClause_getPseudoVars2"
  by (rule parallel_array_setterI
      [where j = 2 and msg = "''Number of vars is not the same as the preallocated buffer''" and dest = "\<lambda>c. ArrayRef_end (OMPLastPrivateClause_getPseudoVars1 c)"])
    (simp_all add: OMPLastPrivateClause_setPseudoVars2_def varlist_defs accessor_defs)

lemma OMPLastPrivateClause_setDefaultInits_ok:
  "parallel_array_setter 5 OMPLastPrivateClause_setDefaultInits OMPLastPrivateClause_getDefaultInits"
  by (rule parallel_array_setterI
      [where j = 3 and msg = "''Number of inits is not the same as the preallocated buffer''" and dest = "\<lambda>c. ArrayRef_end (OMPLastPrivateClause_getPseudoVars2 c)"])
    (simp_all add: OMPLastPrivateClause_setDefaultInits_def varlist_defs accessor_defs)

lemma OMPLastPrivateClause_setAssignments_ok:
  "parallel_array_setter 5 OMPLastPrivateClause_setAssignments OMPLastPrivateClause_getAssignments"
  by (rule parallel_array_setterI
      [where j = 4 and msg = "''Number of inits is not the same as the preallocated buffer''" and dest = "\<lambda>c. ArrayRef_end (OMPLastPrivateClause_getDefaultInits c)"])
    (simp_all add: OMPLastPrivateClause_setAssignments_def varlist_defs accessor_defs)

lemma OMPCopyinClause_setPseudoVars1_ok:
  "parallel_array_setter 4 OMPCopyinClause_setPseudoVars1 OMPCopyinClause_getPseudoVars1"
  by (rule parallel_array_setterI
      [where j = 1 and msg = "''Number of vars is not the same as the preallocated buffer''" and dest = "\<lambda>c. varlist_end c"])
    (simp_all add: OMPCopyinClause_setPseudoVars1_def varlist_defs accessor_defs)

lemma OMPCopyinClause_setPseudoVars2_ok:
  "parallel_array_setter 4 OMPCopyinClause_setPseudoVars2 OMPCopyinClause_getPseudoVars2"
  by (rule parallel_array_setterI
      [where j = 2 and msg = "''Number of vars is not the same as the preallocated buffer''" and dest = "\<lambda>c. ArrayRef_end (OMPCopyinClause_getPseudoVars1 c)"])
    (simp_all add: OMPCopyinClause_setPseudoVars2_def varlist_defs accessor_defs)

lemma OMPCopyinClause_setAssignments_ok:
  "parallel_array_setter 4 OMPCopyinClause_setAssignments OMPCopyinClause_getAssignments"
  by (rule parallel_array_setterI
      [where j = 3 and msg = "''Number of inits is not the same as the preallocated buffer''" and dest = "\<lambda>c. ArrayRef_end (OMPCopyinClause_getPseudoVars2 c)"])
    (simp_all add: OMPCopyinClause_setAssignments_def varlist_defs accessor_defs)

lemma OMPCopyPrivateClause_setPseudoVars1_ok:
  "parallel_array_setter 4 OMPCopyPrivateClause_setPseudoVars1 OMPCopyPrivateClause_getPseudoVars1"
  by (rule parallel_array_setterI
      [where j = 1 and msg = "''Number of vars is not the same as the preallocated buffer''" and dest = "\<lambda>c. varlist_end c"])
    (simp_all add: OMPCopyPrivateClause_setPseudoVars1_def varlist_defs accessor_defs)

lemma OMPCopyPrivateClause_setPseudoVars2_ok:
  "parallel_array_setter 4 OMPCopyPrivateClause_setPseudoVars2 OMPCopyPrivateClause_getPseudoVars2"
  by (rule parallel_array_setterI
      [where j = 2 and msg = "''Number of vars is not the same as the preallocated buffer''" and dest = "\<lambda>c. ArrayRef_end (OMPCopyPrivateClause_getPseudoVars1 c)"])
    (simp_all add: OMPCopyPrivateClause_setPseudoVars2_def varlist_defs accessor_defs)

lemma OMPCopyPrivateClause_setAssignments_ok:
  "parallel_array_setter 4 OMPCopyPrivateClause_setAssignments OMPCopyPrivateClause_getAssignments"
  by (rule parallel_array_setterI
      [where j = 3 and msg = "''Number of inits is not the same as the preallocated buffer''" and dest = "\<lambda>c. ArrayRef_end (OMPCopyPrivateClause_getPseudoVars2 c)"])
    (simp_all add: OMPCopyPrivateClause_setAssignments_def varlist_defs accessor_defs)

lemma OMPReductionClause_setOpExprs_ok:
  "parallel_array_setter 5 OMPReductionClause_setOpExprs OMPReductionClause_getOpExprs"
  by (rule parallel_array_setterI
      [where j = 1 and msg = "''Number of expressions is not the same as the number of variables.''" and dest = "\<lambda>c. varlist_end c"])
    (simp_all add: OMPReductionClause_setOpExprs_def varlist_defs accessor_defs)

lemma OMPReductionClause_setHelperParameters1st_ok:
  "parallel_array_setter 5 OMPReductionClause_setHelperParameters1st OMPReductionClause_getHelperParameters1st"
  by (rule parallel_array_setterI
      [where j = 2 and msg = "''Number of expressions is not the same as the number of variables.''" and dest = "\<lambda>c. ArrayRef_end (OMPReductionClause_getOpExprs c)"])
    (simp_all add: OMPReductionClause_setHelperParameters1st_def varlist_defs accessor_defs)

lemma OMPReductionClause_setHelperParameters2nd_ok:
  "parallel_array_setter 5 OMPReductionClause_setHelperParameters2nd OMPReductionClause_getHelperParameters2nd"
  by (rule parallel_array_setterI
      [where j = 3 and msg = "''Number of expressions is not the same as the number of variables.''" and dest = "\<lambda>c. ArrayRef_end (OMPReductionClause_getHelperParameters1st c)"])
    (simp_all add: OMPReductionClause_setHelperParameters2nd_def varlist_defs accessor_defs)

lemma OMPReductionClause_setDefaultInits_ok:
  "parallel_array_setter 5 OMPReductionClause_setDefaultInits OMPReductionClause_getDefaultInits"
  by (rule parallel_array_setterI
      [where j = 4 and msg = "''Number of inits is not the same as the preallocated buffer''" and dest = "\<lambda>c. ArrayRef_end (OMPReductionClause_getHelperParameters2nd c)"])
    (simp_all add: OMPReductionClause_setDefaultInits_def varlist_defs accessor_defs)

lemmas setter_defs =
  setVars_def
  OMPPrivateClause_setDefaultInits_def
  OMPFirstPrivateClause_setPseudoVars_def OMPFirstPrivateClause_setInits_def
  OMPLastPrivateClause_setPseudoVars1_def OMPLastPrivateClause_setPseudoVars2_def
  OMPLastPrivateClause_setDefaultInits_def OMPLastPrivateClause_setAssignments_def
  OMPCopyinClause_setPseudoVars1_def OMPCopyinClause_setPseudoVars2_def
  OMPCopyinClause_setAssignments_def
  OMPCopyPrivateClause_setPseudoVars1_def OMPCopyPrivateClause_setPseudoVars2_def
  OMPCopyPrivateClause_setAssignments_def
  OMPReductionClause_setOpExprs_def OMPReductionClause_setHelperParameters1st_def
  OMPReductionClause_setHelperParameters2nd_def OMPReductionClause_setDefaultInits_def

lemma OMPPrivateClause_Create_ok:
  "(OMPPrivateClause_Create mem VL DefaultInits = Inr c \<longrightarrow>
      length DefaultInits = length VL \<and>
      NumVars c = length VL \<and> clause_slots 2 c) \<and>
   (length DefaultInits = length VL \<longrightarrow>
      (\<exists>c. OMPPrivateClause_Create mem VL DefaultInits = Inr c)) \<and>
   NumVars (OMPPrivateClause_CreateEmpty mem N) = N \<and> clause_slots 2 (OMPPrivateClause_CreateEmpty mem N)"
  by (auto simp: OMPPrivateClause_Create_def OMPPrivateClause_CreateEmpty_def and_then_def returned_def setter_defs
      varlist_defs accessor_defs clause_slots_def std_copy_def Let_def split: if_splits)

lemma OMPFirstPrivateClause_Create_ok:
  "(OMPFirstPrivateClause_Create mem VL PseudoVars Inits = Inr c \<longrightarrow>
      length PseudoVars = length VL \<and> length Inits = length VL \<and>
      NumVars c = length VL \<and> clause_slots 3 c) \<and>
   (length PseudoVars = length VL \<and> length Inits = length VL \<longrightarrow>
      (\<exists>c. OMPFirstPrivateClause_Create mem VL PseudoVars Inits = Inr c)) \<and>
   NumVars (OMPFirstPrivateClause_CreateEmpty mem N) = N \<and> clause_slots 3 (OMPFirstPrivateClause_CreateEmpty mem N)"
  by (auto simp: OMPFirstPrivateClause_Create_def OMPFirstPrivateClause_CreateEmpty_def and_then_def returned_def setter_defs
      varlist_defs accessor_defs clause_slots_def std_copy_def Let_def split: if_splits)

lemma OMPLastPrivateClause_Create_ok:
  "(OMPLastPrivateClause_Create mem VL PseudoVars1 PseudoVars2 Assignments = Inr c \<longrightarrow>
      length PseudoVars1 = length VL \<and> length PseudoVars2 = length VL \<and> length Assignments = length VL \<and>
      NumVars c = length VL \<and> clause_slots 5 c) \<and>
   (length PseudoVars1 = length VL \<and> length PseudoVars2 = length VL \<and> length Assignments = length VL \<longrightarrow>
      (\<exists>c. OMPLastPrivateClause_Create mem VL PseudoVars1 PseudoVars2 Assignments = Inr c)) \<and>
   NumVars (OMPLastPrivateClause_CreateEmpty mem N) = N \<and> clause_slots 5 (OMPLastPrivateClause_CreateEmpty mem N)"
  by (auto simp: OMPLastPrivateClause_Create_def OMPLastPrivateClause_CreateEmpty_def and_then_def returned_def setter_defs
      varlist_defs accessor_defs clause_slots_def std_copy_def Let_def split: if_splits)

lemma OMPCopyinClause_Create_ok:
  "(OMPCopyinClause_Create mem VL PseudoVars1 PseudoVars2 Assignments = Inr c \<longrightarrow>
      length PseudoVars1 = length VL \<and> length PseudoVars2 = length VL \<and> length Assignments = length VL \<and>
      NumVars c = length VL \<and> clause_slots 4 c) \<and>
   (length PseudoVars1 = length VL \<and> length PseudoVars2 = length VL \<and> length Assignments = length VL \<longrightarrow>
      (\<exists>c. OMPCopyinClause_Create mem VL PseudoVars1 PseudoVars2 Assignments = Inr c)) \<and>
   NumVars (OMPCopyinClause_CreateEmpty mem N) = N \<and> clause_slots 4 (OMPCopyinClause_CreateEmpty mem N)"
  by (auto simp: OMPCopyinClause_Create_def OMPCopyinClause_CreateEmpty_def and_then_def returned_def setter_defs
      varlist_defs accessor_defs clause_slots_def std_copy_def Let_def split: if_splits)

lemma OMPCopyPrivateClause_Create_ok:
  "(OMPCopyPrivateClause_Create mem VL PseudoVars1 PseudoVars2 Assignments = Inr c \<longrightarrow>
      length PseudoVars1 = length VL \<and> length PseudoVars2 = length VL \<and> length Assignments = length VL \<and>
      NumVars c = length VL \<and> clause_slots 4 c) \<and>
   (length PseudoVars1 = length VL \<and> length PseudoVars2 = length VL \<and> length Assignments = length VL \<longrightarrow>
      (\<exists>c. OMPCopyPrivateClause_Create mem VL PseudoVars1 PseudoVars2 Assignments = Inr c)) \<and>
   NumVars (OMPCopyPrivateClause_CreateEmpty mem N) = N \<and> clause_slots 4 (OMPCopyPrivateClause_CreateEmpty mem N)"
  by (auto simp: OMPCopyPrivateClause_Create_def OMPCopyPrivateClause_CreateEmpty_def and_then_def returned_def setter_defs
      varlist_defs accessor_defs clause_slots_def std_copy_def Let_def split: if_splits)

lemma OMPReductionClause_Create_ok:
  "(OMPReductionClause_Create mem VL OpExprs HelperParams1 HelperParams2 DefaultInits = Inr c \<longrightarrow>
      length OpExprs = length VL \<and> length HelperParams1 = length VL \<and> length HelperParams2 = length VL \<and> length DefaultInits = length VL \<and>
      NumVars c = length VL \<and> clause_slots 5 c) \<and>
   (length OpExprs = length VL \<and> length HelperParams1 = length VL \<and> length HelperParams2 = length VL \<and> length DefaultInits = length VL \<longrightarrow>
      (\<exists>c. OMPReductionClause_Create mem VL OpExprs HelperParams1 HelperParams2 DefaultInits = Inr c)) \<and>
   NumVars (OMPReductionClause_CreateEmpty mem N) = N \<and> clause_slots 5 (OMPReductionClause_CreateEmpty mem N)"
  by (auto simp: OMPReductionClause_Create_def OMPReductionClause_CreateEmpty_def and_then_def returned_def setter_defs
      varlist_defs accessor_defs clause_slots_def std_copy_def Let_def split: if_splits)

text \<open>
  Claim C8. Every setter of lib/AST/Stmt.cpp that fills a parallel array of a
  clause (default initialisers, pseudo-variables, initialisers, assignments,
  combiner expressions, helper parameters) is a \<open>parallel_array_setter\<close>: a source
  whose length differs from the number of variables ends in a failed assertion
  with the clause unchanged, so before any data is copied; a source of that
  length is copied into the array; and the array of the accessor has exactly as
  many elements as the variable list. The clauses that the factories return are
  allocated with the slots that this needs (\<open>clause_slots\<close>), and a factory returns a
  clause exactly when every array it is given has the length of the variable list.
\<close>

theorem clause_parallel_arrays:
  "parallel_array_setter 2 OMPPrivateClause_setDefaultInits OMPPrivateClause_getDefaultInits \<and>
   parallel_array_setter 3 OMPFirstPrivateClause_setPseudoVars OMPFirstPrivateClause_getPseudoVars \<and>
   parallel_array_setter 3 OMPFirstPrivateClause_setInits OMPFirstPrivateClause_getInits \<and>
   parallel_array_setter 5 OMPLastPrivateClause_setPseudoVars1 OMPLastPrivateClause_getPseudoVars1 \<and>
   parallel_array_setter 5 OMPLastPrivateClause_setPseudoVars2 OMPLastPrivateClause_getPseudoVars2 \<and>
   parallel_array_setter 5 OMPLastPrivateClause_setDefaultInits OMPLastPrivateClause_getDefaultInits \<and>
   parallel_array_setter 5 OMPLastPrivateClause_setAssignments OMPLastPrivateClause_getAssignments \<and>
   parallel_array_setter 4 OMPCopyinClause_setPseudoVars1 OMPCopyinClause_getPseudoVars1 \<and>
   parallel_array_setter 4 OMPCopyinClause_setPseudoVars2 OMPCopyinClause_getPseudoVars2 \<and>
   parallel_array_setter 4 OMPCopyinClause_setAssignments OMPCopyinClause_getAssignments \<and>
   parallel_array_setter 4 OMPCopyPrivateClause_setPseudoVars1 OMPCopyPrivateClause_getPseudoVars1 \<and>
   parallel_array_setter 4 OMPCopyPrivateClause_setPseudoVars2 OMPCopyPrivateClause_getPseudoVars2 \<and>
   parallel_array_setter 4 OMPCopyPrivateClause_setAssignments OMPCopyPrivateClause_getAssignments \<and>
   parallel_array_setter 5 OMPReductionClause_setOpExprs OMPReductionClause_getOpExprs \<and>
   parallel_array_setter 5 OMPReductionClause_setHelperParameters1st OMPReductionClause_getHelperParameters1st \<and>
   parallel_array_setter 5 OMPReductionClause_setHelperParameters2nd OMPReductionClause_getHelperParameters2nd \<and>
   parallel_array_setter 5 OMPReductionClause_setDefaultInits OMPReductionClause_getDefaultInits \<and>
   (OMPPrivateClause_Create mem VL DefaultInits = Inr c \<longrightarrow>
      length DefaultInits = length VL \<and>
      NumVars c = length VL \<and> clause_slots 2 c) \<and>
   (length DefaultInits = length VL \<longrightarrow>
      (\<exists>c. OMPPrivateClause_Create mem VL DefaultInits = Inr c)) \<and>
   NumVars (OMPPrivateClause_CreateEmpty mem N) = N \<and> clause_slots 2 (OMPPrivateClause_CreateEmpty mem N) \<and>
   (OMPFirstPrivateClause_Create mem VL PseudoVars Inits = Inr c \<longrightarrow>
      length PseudoVars = length VL \<and> length Inits = length VL \<and>
      NumVars c = length VL \<and> clause_slots 3 c) \<and>
   (length PseudoVars = length VL \<and> length Inits = length VL \<longrightarrow>
      (\<exists>c. OMPFirstPrivateClause_Create mem VL PseudoVars Inits = Inr c)) \<and>
   NumVars (OMPFirstPrivateClause_CreateEmpty mem N) = N \<and> clause_slots 3 (OMPFirstPrivateClause_CreateEmpty mem N) \<and>
   (OMPLastPrivateClause_Create mem VL PseudoVars1 PseudoVars2 Assignments = Inr c \<longrightarrow>
      length PseudoVars1 = length VL \<and> length PseudoVars2 = length VL \<and> length Assignments = length VL \<and>
      NumVars c = length VL \<and> clause_slots 5 c) \<and>
   (length PseudoVars1 = length VL \<and> length PseudoVars2 = length VL \<and> length Assignments = length VL \<longrightarrow>
      (\<exists>c. OMPLastPrivateClause_Create mem VL PseudoVars1 PseudoVars2 Assignments = Inr c)) \<and>
   NumVars (OMPLastPrivateClause_CreateEmpty mem N) = N \<and> clause_slots 5 (OMPLastPrivateClause_CreateEmpty mem N) \<and>
   (OMPCopyinClause_Create mem VL PseudoVars1 PseudoVars2 Assignments = Inr c \<longrightarrow>
      length PseudoVars1 = length VL \<and> length PseudoVars2 = length VL \<and> length Assignments = length VL \<and>
      NumVars c = length VL \<and> clause_slots 4 c) \<and>
   (length PseudoVars1 = length VL \<and> length PseudoVars2 = length VL \<and> length Assignments = length VL \<longrightarrow>
      (\<exists>c. OMPCopyinClause_Create mem VL PseudoVars1 PseudoVars2 Assignments = Inr c)) \<and>
   NumVars (OMPCopyinClause_CreateEmpty mem N) = N \<and> clause_slots 4 (OMPCopyinClause_CreateEmpty mem N) \<and>
   (OMPCopyPrivateClause_Create mem VL PseudoVars1 PseudoVars2 Assignments = Inr c \<longrightarrow>
      length PseudoVars1 = length VL \<and> length PseudoVars2 = length VL \<and> length Assignments = length VL \<and>
      NumVars c = length VL \<and> clause_slots 4 c) \<and>
   (length PseudoVars1 = length VL \<and> length PseudoVars2 = length VL \<and> length Assignments = length VL \<longrightarrow>
      (\<exists>c. OMPCopyPrivateClause_Create mem VL PseudoVars1 PseudoVars2 Assignments = Inr c)) \<and>
   NumVars (OMPCopyPrivateClause_CreateEmpty mem N) = N \<and> clause_slots 4 (OMPCopyPrivateClause_CreateEmpty mem N) \<and>
   (OMPReductionClause_Create mem VL OpExprs HelperParams1 HelperParams2 DefaultInits = Inr c \<longrightarrow>
      length OpExprs = length VL \<and> length HelperParams1 = length VL \<and> length HelperParams2 = length VL \<and> length DefaultInits = length VL \<and>
      NumVars c = length VL \<and> clause_slots 5 c) \<and>
   (length OpExprs = length VL \<and> length HelperParams1 = length VL \<and> length HelperParams2 = length VL \<and> length DefaultInits = length VL \<longrightarrow>
      (\<exists>c. OMPReductionClause_Create mem VL OpExprs HelperParams1 HelperParams2 DefaultInits = Inr c)) \<and>
   NumVars (OMPReductionClause_CreateEmpty mem N) = N \<and> clause_slots 5 (OMPReductionClause_CreateEmpty mem N)"
  by (intro conjI OMPPrivateClause_setDefaultInits_ok
      OMPFirstPrivateClause_setPseudoVars_ok
      OMPFirstPrivateClause_setInits_ok
      OMPLastPrivateClause_setPseudoVars1_ok
      OMPLastPrivateClause_setPseudoVars2_ok
      OMPLastPrivateClause_setDefaultInits_ok
      OMPLastPrivateClause_setAssignments_ok
      OMPCopyinClause_setPseudoVars1_ok
      OMPCopyinClause_setPseudoVars2_ok
      OMPCopyinClause_setAssignments_ok
      OMPCopyPrivateClause_setPseudoVars1_ok
      OMPCopyPrivateClause_setPseudoVars2_ok
      OMPCopyPrivateClause_setAssignments_ok
      OMPReductionClause_setOpExprs_ok
      OMPReductionClause_setHelperParameters1st_ok
      OMPReductionClause_setHelperParameters2nd_ok
      OMPReductionClause_setDefaultInits_ok
      OMPPrivateClause_Create_ok [THEN conjunct1]
      OMPPrivateClause_Create_ok [THEN conjunct2, THEN conjunct1]
      OMPPrivateClause_Create_ok [THEN conjunct2, THEN conjunct2, THEN conjunct1]
      OMPPrivateClause_Create_ok [THEN conjunct2, THEN conjunct2, THEN conjunct2]
      OMPFirstPrivateClause_Create_ok [THEN conjunct1]
      OMPFirstPrivateClause_Create_ok [THEN conjunct2, THEN conjunct1]
      OMPFirstPrivateClause_Create_ok [THEN conjunct2, THEN conjunct2, THEN conjunct1]
      OMPFirstPrivateClause_Create_ok [THEN conjunct2, THEN conjunct2, THEN conjunct2]
      OMPLastPrivateClause_Create_ok [THEN conjunct1]
      OMPLastPrivateClause_Create_ok [THEN conjunct2, THEN conjunct1]
      OMPLastPrivateClause_Create_ok [THEN conjunct2, THEN conjunct2, THEN conjunct1]
      OMPLastPrivateClause_Create_ok [THEN conjunct2, THEN conjunct2, THEN conjunct2]
      OMPCopyinClause_Create_ok [THEN conjunct1]
      OMPCopyinClause_Create_ok [THEN conjunct2, THEN conjunct1]
      OMPCopyinClause_Create_ok [THEN conjunct2, THEN conjunct2, THEN conjunct1]
      OMPCopyinClause_Create_ok [THEN conjunct2, THEN conjunct2, THEN conjunct2]
      OMPCopyPrivateClause_Create_ok [THEN conjunct1]
      OMPCopyPrivateClause_Create_ok [THEN conjunct2, THEN conjunct1]
      OMPCopyPrivateClause_Create_ok [THEN conjunct2, THEN conjunct2, THEN conjunct1]
      OMPCopyPrivateClause_Create_ok [THEN conjunct2, THEN conjunct2, THEN conjunct2]
      OMPReductionClause_Create_ok [THEN conjunct1]
      OMPReductionClause_Create_ok [THEN conjunct2, THEN conjunct1]
      OMPReductionClause_Create_ok [THEN conjunct2, THEN conjunct2, THEN conjunct1]
      OMPReductionClause_Create_ok [THEN conjunct2, THEN conjunct2, THEN conjunct2])

text \<open>
  The witness: a firstprivate clause of two variables. Its initialisers are set
  from a source of two elements; a source of one element is rejected with the
  clause unchanged; and the factory builds the clause from three arrays of two.
\<close>

theorem clause_parallel_arrays_witness:
  "OMPFirstPrivateClause_setInits
     \<lparr>NumVars = 2, Trailing = [Some ''a'', Some ''b'', Some ''pa'', Some ''pb'', None, None]\<rparr>
     [Some ''ia'', Some ''ib''] =
     (None, \<lparr>NumVars = 2,
             Trailing = [Some ''a'', Some ''b'', Some ''pa'', Some ''pb'', Some ''ia'', Some ''ib'']\<rparr>) \<and>
   OMPFirstPrivateClause_setInits
     \<lparr>NumVars = 2, Trailing = [Some ''a'', Some ''b'', Some ''pa'', Some ''pb'', None, None]\<rparr>
     [Some ''ia''] =
     (Some (assertion ''Number of inits is not the same as the preallocated buffer''),
      \<lparr>NumVars = 2, Trailing = [Some ''a'', Some ''b'', Some ''pa'', Some ''pb'', None, None]\<rparr>) \<and>
   OMPFirstPrivateClause_Create (\<lambda>i. None) [Some ''a'', Some ''b''] [Some ''pa'', Some ''pb'']
     [Some ''ia'', Some ''ib''] =
     Inr \<lparr>NumVars = 2,
          Trailing = [Some ''a'', Some ''b'', Some ''pa'', Some ''pb'', Some ''ia'', Some ''ib'']\<rparr>"
proof -
  let ?c = "\<lparr>NumVars = 2,
    Trailing = [Some ''a'', Some ''b'', Some ''pa'', Some ''pb'', None, None :: string option]\<rparr>"
  have s: "parallel_array_setter 3
      (OMPFirstPrivateClause_setInits ::
         string OMPVarListClause \<Rightarrow> string option list \<Rightarrow> fatal option \<times> string OMPVarListClause)
      OMPFirstPrivateClause_getInits"
    using clause_parallel_arrays by blast
  have slots: "clause_slots 3 ?c" by (simp add: clause_slots_def)
  have "length [Some ''ia'', Some ''ib'' :: string option] = NumVars ?c \<longrightarrow> clause_slots 3 ?c \<longrightarrow>
      (\<exists>c'. OMPFirstPrivateClause_setInits ?c [Some ''ia'', Some ''ib''] = (None, c') \<and>
        NumVars c' = NumVars ?c \<and> clause_slots 3 c' \<and>
        ArrayRef_elems c' (OMPFirstPrivateClause_getInits c') = [Some ''ia'', Some ''ib''])"
    using s unfolding parallel_array_setter_def by blast
  with slots have "\<exists>c'. OMPFirstPrivateClause_setInits ?c [Some ''ia'', Some ''ib''] = (None, c') \<and>
      NumVars c' = NumVars ?c \<and> clause_slots 3 c' \<and>
      ArrayRef_elems c' (OMPFirstPrivateClause_getInits c') = [Some ''ia'', Some ''ib'']"
    by simp
  moreover have "length [Some ''ia'' :: string option] \<noteq> NumVars ?c \<longrightarrow>
      (\<exists>msg. OMPFirstPrivateClause_setInits ?c [Some ''ia''] = (Some (assertion msg), ?c))"
    using s unfolding parallel_array_setter_def by blast
  then have "\<exists>msg. OMPFirstPrivateClause_setInits ?c [Some ''ia''] = (Some (assertion msg), ?c)"
    by simp
  moreover have "length [Some ''pa'', Some ''pb''] = length [Some ''a'', Some ''b''] \<and>
      length [Some ''ia'', Some ''ib''] = length [Some ''a'', Some ''b''] \<longrightarrow>
      (\<exists>c. OMPFirstPrivateClause_Create (\<lambda>i. None)
        [Some ''a'', Some ''b''] [Some ''pa'', Some ''pb''] [Some ''ia'', Some ''ib'' :: string option] = Inr c)"
    using clause_parallel_arrays
      [where mem = "\<lambda>i. None" and VL = "[Some ''a'', Some ''b'']"
         and PseudoVars = "[Some ''pa'', Some ''pb'']"
         and Inits = "[Some ''ia'', Some ''ib'' :: string option]"]
    by blast
  then have "\<exists>c. OMPFirstPrivateClause_Create (\<lambda>i. None)
      [Some ''a'', Some ''b''] [Some ''pa'', Some ''pb''] [Some ''ia'', Some ''ib'' :: string option] = Inr c"
    by simp
  ultimately show ?thesis
    by (simp add: OMPFirstPrivateClause_Create_def and_then_def returned_def setter_defs
        varlist_defs accessor_defs std_copy_def Let_def upt_rec)
qed

end
